theory Spec2Isabelle
  imports Complex_Main "HOL-Library.Log_Nat" "HOL-Library.Sublist"
begin

section \<open>Python floats\<close>

text \<open>
  Every number the analyzer handles is a Python \<^verbatim>\<open>float\<close>, an IEEE binary64 value. A finite
  float is modelled by the rational it denotes; the three special values are constructors of
  their own. The sign of zero is not modelled: \<^verbatim>\<open>-0.0\<close> and \<^verbatim>\<open>0.0\<close> are both \<open>Fin 0\<close>.
  They compare equal in Python and no branch of the program tells them apart; a negative
  zero would show only in the sign that a format prints for it.
\<close>

datatype pyfloat = Fin rat | PInf | NInf | NaN

datatype exn = ZeroDivisionError | ValueError | KeyError | SourceError

text \<open>Rounding a rational to the nearest integer, ties to the even neighbour.\<close>

definition round_half_even :: "rat \<Rightarrow> int" where
  "round_half_even x =
     (let f = \<lfloor>x\<rfloor>; d = x - of_int f
      in if d < 1 / 2 then f else if 1 / 2 < d then f + 1 else if even f then f else f + 1)"

text \<open>The binary exponent of a positive rational: the \<open>e\<close> with \<open>2^e \<le> x < 2^(e+1)\<close>.\<close>

definition ilog2 :: "rat \<Rightarrow> int" where
  "ilog2 x = (if 1 \<le> x then bitlen \<lfloor>x\<rfloor> - 1 else - bitlen (\<lceil>1 / x\<rceil> - 1))"

text \<open>
  The result of every binary64 operation is the exact result rounded to nearest, ties to
  even, on a 53-bit significand: the spacing of the floats around \<open>x\<close> is \<open>2^(e-52)\<close>, with
  the exponent \<open>e\<close> no smaller than \<open>-1022\<close> (below that the floats are subnormal and equally
  spaced). A rounded value whose exponent exceeds \<open>1023\<close> is an infinity.
\<close>

definition binary64 :: "rat \<Rightarrow> pyfloat" where
  "binary64 x =
     (if x = 0 then Fin 0
      else let e = max (ilog2 \<bar>x\<bar>) (- 1022);
               u = power_int 2 (e - 52);
               y = of_int (round_half_even (x / u)) * u
           in if 1024 \<le> ilog2 \<bar>y\<bar> then (if 0 < x then PInf else NInf) else Fin y)"

text \<open>Comparisons: every comparison with \<^verbatim>\<open>nan\<close> is false.\<close>

definition flt :: "pyfloat \<Rightarrow> pyfloat \<Rightarrow> bool" where
  "flt a b =
     (case (a, b) of
        (Fin x, Fin y) \<Rightarrow> x < y
      | (Fin x, PInf) \<Rightarrow> True
      | (NInf, Fin y) \<Rightarrow> True
      | (NInf, PInf) \<Rightarrow> True
      | _ \<Rightarrow> False)"

definition feq :: "pyfloat \<Rightarrow> pyfloat \<Rightarrow> bool" where
  "feq a b = (a \<noteq> NaN \<and> a = b)"

definition fgt :: "pyfloat \<Rightarrow> pyfloat \<Rightarrow> bool" where
  "fgt a b = flt b a"

definition fle :: "pyfloat \<Rightarrow> pyfloat \<Rightarrow> bool" where
  "fle a b = (flt a b \<or> feq a b)"

definition fge :: "pyfloat \<Rightarrow> pyfloat \<Rightarrow> bool" where
  "fge a b = fle b a"

text \<open>Truth value of a float (\<^verbatim>\<open>if x\<close>, \<^verbatim>\<open>x or 0\<close>): false for zero only; \<^verbatim>\<open>nan\<close> is true.\<close>

definition truthy :: "pyfloat \<Rightarrow> bool" where
  "truthy a = (a \<noteq> Fin 0)"

definition fneg :: "pyfloat \<Rightarrow> pyfloat" where
  "fneg a = (case a of Fin x \<Rightarrow> Fin (- x) | PInf \<Rightarrow> NInf | NInf \<Rightarrow> PInf | NaN \<Rightarrow> NaN)"

definition fabs :: "pyfloat \<Rightarrow> pyfloat" where
  "fabs a = (case a of Fin x \<Rightarrow> Fin \<bar>x\<bar> | PInf \<Rightarrow> PInf | NInf \<Rightarrow> PInf | NaN \<Rightarrow> NaN)"

text \<open>The sign of a float that is neither zero nor \<^verbatim>\<open>nan\<close>: \<open>True\<close> for negative.\<close>

definition negative :: "pyfloat \<Rightarrow> bool" where
  "negative a = flt a (Fin 0)"

definition signed_inf :: "bool \<Rightarrow> pyfloat" where
  "signed_inf neg = (if neg then NInf else PInf)"

text \<open>
  \<^verbatim>\<open>a / b\<close>: Python raises \<^verbatim>\<open>ZeroDivisionError\<close> for a zero divisor, whatever the dividend;
  otherwise the IEEE quotient.
\<close>

definition fdiv :: "pyfloat \<Rightarrow> pyfloat \<Rightarrow> exn + pyfloat" where
  "fdiv a b =
     (if b = Fin 0 then Inl ZeroDivisionError
      else if a = NaN \<or> b = NaN then Inr NaN
      else case (a, b) of
             (Fin x, Fin y) \<Rightarrow> Inr (binary64 (x / y))
           | (Fin x, _) \<Rightarrow> Inr (Fin 0)
           | (_, Fin y) \<Rightarrow> Inr (signed_inf (negative a \<noteq> negative b))
           | _ \<Rightarrow> Inr NaN)"

definition fmul :: "pyfloat \<Rightarrow> pyfloat \<Rightarrow> pyfloat" where
  "fmul a b =
     (if a = NaN \<or> b = NaN then NaN
      else case (a, b) of
             (Fin x, Fin y) \<Rightarrow> binary64 (x * y)
           | _ \<Rightarrow> if a = Fin 0 \<or> b = Fin 0 then NaN
                  else signed_inf (negative a \<noteq> negative b))"

definition fsub :: "pyfloat \<Rightarrow> pyfloat \<Rightarrow> pyfloat" where
  "fsub a b =
     (if a = NaN \<or> b = NaN then NaN
      else case (a, b) of
             (Fin x, Fin y) \<Rightarrow> binary64 (x - y)
           | (Fin x, _) \<Rightarrow> fneg b
           | (_, Fin y) \<Rightarrow> a
           | _ \<Rightarrow> if a = b then NaN else a)"

text \<open>
  \<^verbatim>\<open>round(x, 2)\<close>: CPython prints the exact value of the float with two digits after the
  point, correctly rounded (ties to even), and reads the result back as a float. The
  non-finite values round to themselves.
\<close>

definition round2 :: "pyfloat \<Rightarrow> pyfloat" where
  "round2 a =
     (case a of
        Fin x \<Rightarrow> binary64 (of_int (round_half_even (x * 100)) / 100)
      | _ \<Rightarrow> a)"

section \<open>The data model\<close>

text \<open>The dataclass \<^verbatim>\<open>MarketIndex\<close>.\<close>

record MarketIndex =
  code :: string
  name :: string
  current :: pyfloat
  change :: pyfloat
  change_pct :: pyfloat
  "open" :: pyfloat
  high :: pyfloat
  low :: pyfloat
  prev_close :: pyfloat
  volume :: pyfloat
  amount :: pyfloat
  amplitude :: pyfloat

text \<open>An entry of \<^verbatim>\<open>top_sectors\<close> / \<^verbatim>\<open>bottom_sectors\<close>: the dict \<^verbatim>\<open>{'name': .., 'change_pct': ..}\<close>.\<close>

record sector =
  sector_name :: string
  sector_change_pct :: pyfloat

text \<open>The dataclass \<^verbatim>\<open>MarketOverview\<close>.\<close>

record MarketOverview =
  date :: string
  indices :: "MarketIndex list"
  up_count :: int
  down_count :: int
  flat_count :: int
  limit_up_count :: int
  limit_down_count :: int
  total_amount :: pyfloat
  north_flow :: pyfloat
  top_sectors :: "sector list"
  bottom_sectors :: "sector list"
  margin_balance :: pyfloat
  total_market_cap :: pyfloat
  margin_ratio :: pyfloat
  is_bull_top_warning :: bool
  margin_data_date :: string

text \<open>\<^verbatim>\<open>MarketOverview(date=today)\<close>: every other field at its declared default.\<close>

definition new_overview :: "string \<Rightarrow> MarketOverview" where
  "new_overview today =
     \<lparr> date = today, indices = [], up_count = 0, down_count = 0, flat_count = 0,
       limit_up_count = 0, limit_down_count = 0, total_amount = Fin 0, north_flow = Fin 0,
       top_sectors = [], bottom_sectors = [], margin_balance = Fin 0,
       total_market_cap = Fin 0, margin_ratio = Fin 0, is_bull_top_warning = False,
       margin_data_date = [] \<rparr>"

section \<open>The leverage indicator\<close>

text \<open>
  \<^verbatim>\<open>_get_bull_market_indicator\<close>. The two fetches \<^verbatim>\<open>_get_margin_balance\<close> and
  \<^verbatim>\<open>_get_total_market_cap\<close> catch every exception themselves and return \<^verbatim>\<open>0.0\<close> when their
  source is unavailable, so the function is modelled on the two floats they return. The
  division is the only operation of the body that can raise; the surrounding
  \<^verbatim>\<open>try/except\<close> would then log and leave the overview as it is, nothing being assigned
  before the division.
\<close>

definition get_bull_market_indicator ::
    "MarketOverview \<Rightarrow> pyfloat \<Rightarrow> pyfloat \<Rightarrow> MarketOverview" where
  "get_bull_market_indicator overview mb cap =
     (if fgt mb (Fin 0) \<and> fgt cap (Fin 0) then
        (case fdiv mb cap of
           Inl e \<Rightarrow> overview
         | Inr q \<Rightarrow>
             let ratio = fmul q (Fin 100)
             in overview\<lparr> margin_balance := mb,
                          total_market_cap := cap,
                          margin_ratio := round2 ratio,
                          is_bull_top_warning := fgt ratio (Fin (7 / 2)) \<rparr>)
      else overview)"

section \<open>The retrying fetcher\<close>

text \<open>
  \<^verbatim>\<open>_call_akshare_with_retry(fn, name, attempts=2)\<close>. The wrapped operation \<^verbatim>\<open>fn\<close> takes no
  argument and reaches out to a data source, so two calls of it need not agree: it is
  modelled by the outcome of its \<open>k\<close>-th call, \<open>k = 0, 1, ...\<close>. An outcome is a returned
  value or a raised exception (a subclass of \<^verbatim>\<open>Exception\<close>, which is what the handler
  catches). The wrapper's effects are the log lines it writes and the sleeps it takes, kept
  in order in a trace.
\<close>

datatype 'a outcome = Raised exn | Returned 'a

datatype event = LogWarning int | Sleep int | LogError

text \<open>
  The handler of a failed attempt logs a warning and, unless the attempt was the last one,
  sleeps \<^verbatim>\<open>min(2 ** attempt, 5)\<close> seconds. The loop
  \<^verbatim>\<open>for attempt in range(1, attempts + 1)\<close> is a recursion on the attempts that are left;
  \<open>k\<close> counts the calls of \<^verbatim>\<open>fn\<close> made so far. The code after the loop logs the final
  failure and returns \<^verbatim>\<open>None\<close>.
\<close>

definition backoff :: "int \<Rightarrow> int \<Rightarrow> event list" where
  "backoff attempts attempt =
     LogWarning attempt # (if attempt < attempts then [Sleep (min (2 ^ nat attempt) 5)] else [])"

fun retry_loop ::
    "(nat \<Rightarrow> 'a outcome) \<Rightarrow> int \<Rightarrow> int list \<Rightarrow> nat \<Rightarrow> event list
       \<Rightarrow> 'a option outcome \<times> event list" where
  "retry_loop fn attempts [] k trace = (Returned None, trace @ [LogError])"
| "retry_loop fn attempts (attempt # rest) k trace =
     (case fn k of
        Returned v \<Rightarrow> (Returned (Some v), trace)
      | Raised e \<Rightarrow>
          retry_loop fn attempts rest (Suc k) (trace @ backoff attempts attempt))"

definition call_akshare_with_retry ::
    "(nat \<Rightarrow> 'a outcome) \<Rightarrow> int \<Rightarrow> 'a option outcome \<times> event list" where
  "call_akshare_with_retry fn attempts = retry_loop fn attempts [1..attempts] 0 []"

text \<open>The parameter's default, \<^verbatim>\<open>attempts: int = 2\<close>.\<close>

definition default_attempts :: int where
  "default_attempts = 2"

definition sleeps :: "event list \<Rightarrow> int list" where
  "sleeps trace = concat (map (\<lambda>ev. case ev of Sleep d \<Rightarrow> [d] | _ \<Rightarrow> []) trace)"

section \<open>The index resolver\<close>

text \<open>
  Chinese text is written in pinyin throughout, the theory being ASCII: the index names
  below are \<^verbatim>\<open>Shang zheng zhi shu\<close> (the Shanghai composite), \<^verbatim>\<open>Shen zheng cheng zhi\<close>,
  \<^verbatim>\<open>Chuang ye ban zhi\<close>, \<^verbatim>\<open>Ke chuang 50\<close>, \<^verbatim>\<open>Shang zheng 50\<close> and \<^verbatim>\<open>Hu shen 300\<close>. The class
  attribute \<^verbatim>\<open>MAIN_INDICES\<close> is a dict, iterated in insertion order.
\<close>

definition MAIN_INDICES :: "(string \<times> string) list" where
  "MAIN_INDICES =
     [(''sh000001'', ''Shang zheng zhi shu''),
      (''sz399001'', ''Shen zheng cheng zhi''),
      (''sz399006'', ''Chuang ye ban zhi''),
      (''sh000688'', ''Ke chuang 50''),
      (''sh000016'', ''Shang zheng 50''),
      (''sh000300'', ''Hu shen 300'')]"

text \<open>
  A cell of the primary table as \<^verbatim>\<open>float(row.get(col, 0) or 0)\<close> sees it: the column is
  missing or its value is falsy (\<^verbatim>\<open>None\<close>, an empty string, zero), it holds a number or a
  numeric string, or it holds something \<^verbatim>\<open>float\<close> rejects with \<^verbatim>\<open>ValueError\<close>.
\<close>

datatype cell = Missing | Num pyfloat | NotNumeric

definition to_float :: "cell \<Rightarrow> exn + pyfloat" where
  "to_float c =
     (case c of
        Missing \<Rightarrow> Inr (Fin 0)
      | Num x \<Rightarrow> Inr (if truthy x then x else Fin 0)
      | NotNumeric \<Rightarrow> Inl ValueError)"

text \<open>
  A row of the table of \<^verbatim>\<open>ak.stock_zh_index_spot_sina\<close>. The columns are \<^verbatim>\<open>dai ma\<close> (code),
  \<^verbatim>\<open>zui xin jia\<close> (latest price), \<^verbatim>\<open>zhang die e\<close> (change), \<^verbatim>\<open>zhang die fu\<close> (percent change),
  \<^verbatim>\<open>jin kai\<close> (open), \<^verbatim>\<open>zui gao\<close> (high), \<^verbatim>\<open>zui di\<close> (low), \<^verbatim>\<open>zuo shou\<close> (previous close),
  \<^verbatim>\<open>cheng jiao liang\<close> (volume) and \<^verbatim>\<open>cheng jiao e\<close> (traded value).
\<close>

record spot_row =
  daima :: string
  zuixinjia :: cell
  zhangdiee :: cell
  zhangdiefu :: cell
  jinkai :: cell
  zuigao :: cell
  zuidi :: cell
  zuoshou :: cell
  chengjiaoliang :: cell
  chengjiaoe :: cell

text \<open>
  The table: its rows, and whether it has the code column at all (\<^verbatim>\<open>df['dai ma']\<close> raises
  \<^verbatim>\<open>KeyError\<close> when it has not).
\<close>

record spot_table =
  has_code_column :: bool
  spot_rows :: "spot_row list"

definition try_bind :: "exn + 'a \<Rightarrow> ('a \<Rightarrow> exn + 'b) \<Rightarrow> exn + 'b" where
  "try_bind m f = (case m of Inl e \<Rightarrow> Inl e | Inr x \<Rightarrow> f x)"

text \<open>
  The construction of one \<^verbatim>\<open>MarketIndex\<close> from the matched row: nine conversions in the
  order of the constructor's arguments, then the amplitude, computed only for a positive
  previous close.
\<close>

definition make_index :: "string \<Rightarrow> string \<Rightarrow> spot_row \<Rightarrow> exn + MarketIndex" where
  "make_index c nm row =
     try_bind (to_float (zuixinjia row)) (\<lambda>v_current.
     try_bind (to_float (zhangdiee row)) (\<lambda>v_change.
     try_bind (to_float (zhangdiefu row)) (\<lambda>v_change_pct.
     try_bind (to_float (jinkai row)) (\<lambda>v_open.
     try_bind (to_float (zuigao row)) (\<lambda>v_high.
     try_bind (to_float (zuidi row)) (\<lambda>v_low.
     try_bind (to_float (zuoshou row)) (\<lambda>v_prev_close.
     try_bind (to_float (chengjiaoliang row)) (\<lambda>v_volume.
     try_bind (to_float (chengjiaoe row)) (\<lambda>v_amount.
       let index = \<lparr> code = c, name = nm, current = v_current, change = v_change,
                     change_pct = v_change_pct, open = v_open, high = v_high, low = v_low,
                     prev_close = v_prev_close, volume = v_volume, amount = v_amount,
                     amplitude = Fin 0 \<rparr>
       in if fgt (prev_close index) (Fin 0)
          then try_bind (fdiv (fsub (high index) (low index)) (prev_close index))
                 (\<lambda>q. Inr (index\<lparr> amplitude := fmul q (Fin 100) \<rparr>))
          else Inr index)))))))))"

text \<open>
  The loop over \<^verbatim>\<open>MAIN_INDICES.items()\<close> on the primary table: an exact match of the code
  first, a substring match (\<^verbatim>\<open>str.contains\<close>) when there is none, the first matching row
  taken. The loop returns the indices appended so far and the exception that ended it, if
  one did: the list \<^verbatim>\<open>indices\<close> lives outside the \<^verbatim>\<open>try\<close>, so what was appended before an
  exception stays.
\<close>

fun match_loop ::
    "spot_table \<Rightarrow> (string \<times> string) list \<Rightarrow> MarketIndex list
       \<Rightarrow> MarketIndex list \<times> exn option" where
  "match_loop df [] acc = (acc, None)"
| "match_loop df ((c, nm) # rest) acc =
     (if \<not> has_code_column df then (acc, Some KeyError)
      else let exact = filter (\<lambda>r. daima r = c) (spot_rows df);
               row = (if exact = [] then filter (\<lambda>r. sublist c (daima r)) (spot_rows df)
                      else exact)
           in case row of
                [] \<Rightarrow> match_loop df rest acc
              | r # _ \<Rightarrow>
                  (case make_index c nm r of
                     Inl e \<Rightarrow> (acc, Some e)
                   | Inr index \<Rightarrow> match_loop df rest (acc @ [index])))"

text \<open>
  The primary stage of \<^verbatim>\<open>_get_main_indices\<close>: the batch fetch through the retrying fetcher
  (two attempts), then the matching loop when the table is there and not empty.
\<close>

definition primary_indices :: "(nat \<Rightarrow> spot_table outcome) \<Rightarrow> MarketIndex list" where
  "primary_indices fetch =
     (case fst (call_akshare_with_retry fetch 2) of
        Raised e \<Rightarrow> []
      | Returned None \<Rightarrow> []
      | Returned (Some df) \<Rightarrow>
          if spot_rows df = [] then [] else fst (match_loop df MAIN_INDICES []))"

text \<open>
  The secondary source. \<^verbatim>\<open>yf.Ticker(yf_code)\<close> constructs a ticker object or raises, and the
  object's \<^verbatim>\<open>history(period='2d')\<close> returns a table of daily bars, oldest first, or raises.
  The source is therefore modelled, for each symbol, by the outcome of the construction,
  which when it returns carries the outcome of the history request.
\<close>

record bar =
  Open :: pyfloat
  High :: pyfloat
  Low :: pyfloat
  Close :: pyfloat
  Volume :: pyfloat

definition yf_mapping :: "(string \<times> string \<times> string) list" where
  "yf_mapping =
     [(''sh000001'', ''000001.SS'', ''Shang zheng zhi shu''),
      (''sz399001'', ''399001.SZ'', ''Shen zheng cheng zhi''),
      (''sz399006'', ''399006.SZ'', ''Chuang ye ban zhi''),
      (''sh000688'', ''000688.SS'', ''Ke chuang 50''),
      (''sh000016'', ''000016.SS'', ''Shang zheng 50''),
      (''sh000300'', ''000300.SS'', ''Hu shen 300'')]"

text \<open>
  The inner \<^verbatim>\<open>try\<close> of the loop for one index: \<open>None\<close> when the history request raises, when
  the history is empty (\<^verbatim>\<open>continue\<close>) or when the computation raises; the handler only logs.
\<close>

definition yfinance_index :: "string \<Rightarrow> string \<Rightarrow> bar list outcome \<Rightarrow> MarketIndex option" where
  "yfinance_index ak_code nm result =
     (case result of
        Raised e \<Rightarrow> None
      | Returned hist \<Rightarrow>
          if hist = [] then None
          else let today = last hist;
                   prev = (if 1 < length hist then hist ! (length hist - 2) else today);
                   price = Close today;
                   v_prev_close = Close prev;
                   v_change = fsub price v_prev_close
               in (case (if truthy v_prev_close
                         then try_bind (fdiv v_change v_prev_close)
                                (\<lambda>q. Inr (fmul q (Fin 100)))
                         else Inr (Fin 0)) of
                     Inl e \<Rightarrow> None
                   | Inr v_change_pct \<Rightarrow>
                       Some \<lparr> code = ak_code, name = nm, current = price, change = v_change,
                              change_pct = v_change_pct, open = Open today, high = High today,
                              low = Low today, prev_close = v_prev_close,
                              volume = Volume today, amount = Fin 0, amplitude = Fin 0 \<rparr>))"

text \<open>
  Whether the ticker object of an entry \<^verbatim>\<open>ak_code: (yf_code, name)\<close> of the mapping is
  constructed, and the lookup of the entry: the index its history yields, if any.
\<close>

definition constructed ::
    "(string \<Rightarrow> bar list outcome outcome) \<Rightarrow> string \<times> string \<times> string \<Rightarrow> bool" where
  "constructed ticker entry =
     (case entry of (ak_code, yf_code, nm) \<Rightarrow>
        (case ticker yf_code of Raised e \<Rightarrow> False | Returned t \<Rightarrow> True))"

definition lookup ::
    "(string \<Rightarrow> bar list outcome outcome) \<Rightarrow> string \<times> string \<times> string
       \<Rightarrow> MarketIndex option" where
  "lookup ticker entry =
     (case entry of (ak_code, yf_code, nm) \<Rightarrow>
        (case ticker yf_code of
           Raised e \<Rightarrow> None
         | Returned result \<Rightarrow> yfinance_index ak_code nm result))"

text \<open>
  \<^verbatim>\<open>_get_indices_from_yfinance\<close>, on the entries of the mapping that are left, with the list
  \<^verbatim>\<open>indices\<close> built so far and the symbols passed to \<^verbatim>\<open>yf.Ticker\<close> so far. The construction
  of the ticker object stands outside the inner \<^verbatim>\<open>try\<close>: when it raises, the outer handler
  logs and the function returns the indices it has, without visiting the entries that are
  left. Everything after the construction is inside the inner \<^verbatim>\<open>try\<close>, whose handler logs
  and lets the loop go on.
\<close>

fun yfinance_loop ::
    "(string \<Rightarrow> bar list outcome outcome) \<Rightarrow> (string \<times> string \<times> string) list
       \<Rightarrow> MarketIndex list \<Rightarrow> string list \<Rightarrow> MarketIndex list \<times> string list" where
  "yfinance_loop ticker [] found asked = (found, asked)"
| "yfinance_loop ticker ((ak_code, yf_code, nm) # rest) found asked =
     (if ak_code \<notin> set (map fst MAIN_INDICES) then yfinance_loop ticker rest found asked
      else case ticker yf_code of
             Raised e \<Rightarrow> (found, asked @ [yf_code])
           | Returned result \<Rightarrow>
               (case yfinance_index ak_code nm result of
                  None \<Rightarrow> yfinance_loop ticker rest found (asked @ [yf_code])
                | Some index \<Rightarrow>
                    yfinance_loop ticker rest (found @ [index]) (asked @ [yf_code])))"

definition get_indices_from_yfinance ::
    "(string \<Rightarrow> bar list outcome outcome) \<Rightarrow> MarketIndex list \<times> string list" where
  "get_indices_from_yfinance ticker = yfinance_loop ticker yf_mapping [] []"

text \<open>
  \<^verbatim>\<open>_get_main_indices\<close>: the indices returned, and the symbols passed to the secondary
  source. Both the normal path and the exception handler test \<^verbatim>\<open>if not indices\<close> on the list
  the primary stage left, and call the secondary source when it is empty.
\<close>

definition get_main_indices ::
    "(nat \<Rightarrow> spot_table outcome) \<Rightarrow> (string \<Rightarrow> bar list outcome outcome)
       \<Rightarrow> MarketIndex list \<times> string list" where
  "get_main_indices fetch ticker =
     (let found = primary_indices fetch
      in if found = [] then get_indices_from_yfinance ticker else (found, []))"

section \<open>The breadth calculator\<close>

text \<open>
  A value of the percent-change column before \<^verbatim>\<open>pd.to_numeric(.., errors='coerce')\<close>: a
  number (or a numeric string), or anything else, which the coercion turns into \<^verbatim>\<open>nan\<close>.
\<close>

datatype raw = Numeric pyfloat | NonNumeric

definition to_numeric :: "raw \<Rightarrow> pyfloat" where
  "to_numeric v = (case v of Numeric x \<Rightarrow> x | NonNumeric \<Rightarrow> NaN)"

text \<open>
  The full-market table of \<^verbatim>\<open>ak.stock_zh_a_spot_em\<close>: its number of rows, the percent-change
  column \<^verbatim>\<open>zhang die fu\<close> when the table has one, and, when it has the traded-value column
  \<^verbatim>\<open>cheng jiao e\<close>, the result of pandas' \<^verbatim>\<open>sum()\<close> over that column after coercion.
\<close>

record quote_table =
  n_rows :: nat
  zhangdiefu_col :: "raw list option"
  chengjiaoe_sum :: "pyfloat option"

definition count_where :: "(pyfloat \<Rightarrow> bool) \<Rightarrow> pyfloat list \<Rightarrow> int" where
  "count_where p xs = int (length (filter p xs))"

text \<open>The float literals \<^verbatim>\<open>9.9\<close> and \<^verbatim>\<open>1e8\<close>.\<close>

definition lit_9_9 :: pyfloat where
  "lit_9_9 = binary64 (99 / 10)"

definition lit_1e8 :: pyfloat where
  "lit_1e8 = Fin 100000000"

definition breadth_counts :: "MarketOverview \<Rightarrow> quote_table \<Rightarrow> MarketOverview" where
  "breadth_counts overview df =
     (case zhangdiefu_col df of
        None \<Rightarrow> overview
      | Some col \<Rightarrow>
          let changes = map to_numeric col
          in overview\<lparr> up_count := count_where (\<lambda>x. fgt x (Fin 0)) changes,
                       down_count := count_where (\<lambda>x. flt x (Fin 0)) changes,
                       flat_count := count_where (\<lambda>x. feq x (Fin 0)) changes,
                       limit_up_count := count_where (\<lambda>x. fge x lit_9_9) changes,
                       limit_down_count := count_where (\<lambda>x. fle x (fneg lit_9_9)) changes \<rparr>)"

definition turnover :: "MarketOverview \<Rightarrow> quote_table \<Rightarrow> MarketOverview" where
  "turnover overview df =
     (case chengjiaoe_sum df of
        None \<Rightarrow> overview
      | Some amount_sum \<Rightarrow>
          (case fdiv amount_sum lit_1e8 of
             Inl e \<Rightarrow> overview
           | Inr q \<Rightarrow> overview\<lparr> total_amount := q \<rparr>))"

text \<open>\<^verbatim>\<open>_get_market_statistics\<close>, the fetch going through the retrying fetcher.\<close>

definition get_market_statistics ::
    "MarketOverview \<Rightarrow> (nat \<Rightarrow> quote_table outcome) \<Rightarrow> MarketOverview" where
  "get_market_statistics overview fetch =
     (case fst (call_akshare_with_retry fetch 2) of
        Returned (Some df) \<Rightarrow>
          if n_rows df = 0 then overview else turnover (breadth_counts overview df) df
      | _ \<Rightarrow> overview)"

section \<open>Formatting\<close>

text \<open>
  The reports are Python f-strings. Their text is modelled as it is, with two conventions
  forced by the ASCII character set of the theory: Chinese words are written in pinyin
  (full-width punctuation as its ASCII counterpart), and each emoji or arrow by a name in
  square brackets. The transliteration contains a digit only where the original does.
\<close>

definition nl :: string where
  "nl = [CHR 0x0A]"

text \<open>\<^verbatim>\<open>sep.join(parts)\<close>.\<close>

fun join :: "string \<Rightarrow> string list \<Rightarrow> string" where
  "join sep [] = []"
| "join sep [x] = x"
| "join sep (x # y # ys) = x @ sep @ join sep (y # ys)"

text \<open>
  The decimal digits of a non-negative integer (\<^verbatim>\<open>str\<close> of an \<^verbatim>\<open>int\<close>, without its sign).
\<close>

definition digit_char :: "int \<Rightarrow> char" where
  "digit_char d = ''0123456789'' ! nat (d mod 10)"

function show_decimal :: "int \<Rightarrow> string" where
  "show_decimal n =
     (if n < 10 then [digit_char n] else show_decimal (n div 10) @ [digit_char n])"
  by pat_completeness auto
termination
  by (relation "measure nat") auto

declare show_decimal.simps [simp del]

definition show_int :: "int \<Rightarrow> string" where
  "show_int i = (if i < 0 then ''-'' @ show_decimal (- i) else show_decimal i)"

text \<open>
  The digits of the format specs \<^verbatim>\<open>.2f\<close> and \<^verbatim>\<open>.0f\<close> for the magnitude of a finite float:
  the exact value, correctly rounded to the requested number of decimals, ties to even.
\<close>

definition fixed2 :: "rat \<Rightarrow> string" where
  "fixed2 x =
     (let n = round_half_even (\<bar>x\<bar> * 100)
      in show_decimal (n div 100) @ ''.'' @ [digit_char (n div 10), digit_char n])"

definition fixed0 :: "rat \<Rightarrow> string" where
  "fixed0 x = show_decimal (round_half_even \<bar>x\<bar>)"

text \<open>
  The sign: a minus for a negative value (also when its digits round to zero); with the
  \<^verbatim>\<open>+\<close> flag, a plus for every other value.
\<close>

definition format_f :: "bool \<Rightarrow> (rat \<Rightarrow> string) \<Rightarrow> pyfloat \<Rightarrow> string" where
  "format_f with_plus digits a =
     (case a of
        Fin x \<Rightarrow> (if x < 0 then ''-'' else if with_plus then ''+'' else []) @ digits x
      | PInf \<Rightarrow> (if with_plus then ''+'' else []) @ ''inf''
      | NInf \<Rightarrow> ''-inf''
      | NaN \<Rightarrow> (if with_plus then ''+'' else []) @ ''nan'')"

text \<open>The three specs the reports use: \<^verbatim>\<open>:.2f\<close>, \<^verbatim>\<open>:+.2f\<close> and \<^verbatim>\<open>:.0f\<close>.\<close>

definition fmt_2f :: "pyfloat \<Rightarrow> string" where
  "fmt_2f = format_f False fixed2"

definition fmt_plus_2f :: "pyfloat \<Rightarrow> string" where
  "fmt_plus_2f = format_f True fixed2"

definition fmt_0f :: "pyfloat \<Rightarrow> string" where
  "fmt_0f = format_f False fixed0"

text \<open>
  The marker of missing data. Every placeholder of the reports starts with the word
  \<^verbatim>\<open>zan wu\<close> ("none for now"): \<^verbatim>\<open>zan wu shu ju\<close> (no data), \<^verbatim>\<open>zan wu zhi shu shu ju\<close> (no
  index data), \<^verbatim>\<open>zan wu xiang guan xin wen\<close> (no related news).
\<close>

definition no_data_marker :: string where
  "no_data_marker = ''zan wu''"

definition is_digit :: "char \<Rightarrow> bool" where
  "is_digit c = (c \<in> set ''0123456789'')"

text \<open>
  The direction glyph of an index line: the up arrow for a positive change, the down arrow
  for a negative one, a hyphen otherwise.
\<close>

definition direction :: "pyfloat \<Rightarrow> string" where
  "direction pct =
     (if fgt pct (Fin 0) then ''[up]'' else if flt pct (Fin 0) then ''[down]'' else ''-'')"

section \<open>The deterministic fallback report\<close>

text \<open>
  \<^verbatim>\<open>_format_bull_top_indicator\<close>. The four status banners and their advisory sentences:
  warning (the escape-the-top signal fired), watch (close to the alert line), normal
  (sentiment moderate) and cool (sentiment cold, "safe").
\<close>

definition banner_warning :: "string \<times> string" where
  "banner_warning =
     (''[red circle] **jing gao: chu fa tao ding xin hao!**'',
      ''rong zi yu e zhan bi chao guo 3.5%, shi chang guo re, jian yi jin shen cao zuo'')"

definition banner_watch :: "string \<times> string" where
  "banner_watch =
     (''[yellow circle] **guan zhu: jie jin jing jie xian**'',
      ''rong zi yu e zhan bi jie jin 3.5%, shi chang qing xu pian re'')"

definition banner_normal :: "string \<times> string" where
  "banner_normal =
     (''[green circle] **zheng chang: shi chang qing xu shi zhong**'',
      ''rong zi yu e zhan bi chu yu he li qu jian'')"

definition banner_cool :: "string \<times> string" where
  "banner_cool =
     (''[green circle] **an quan: shi chang qing xu pian leng**'',
      ''rong zi yu e zhan bi jiao di, shi chang xiang dui an quan'')"

text \<open>The status judgement: the pair \<^verbatim>\<open>(status, tip)\<close> the \<^verbatim>\<open>if/elif\<close> chain selects.\<close>

definition bull_top_banner :: "MarketOverview \<Rightarrow> string \<times> string" where
  "bull_top_banner overview =
     (if is_bull_top_warning overview then banner_warning
      else if fgt (margin_ratio overview) (Fin 3) then banner_watch
      else if fgt (margin_ratio overview) (Fin (5 / 2)) then banner_normal
      else banner_cool)"

text \<open>The rows of the indicator table under its header: balance, cap, ratio, threshold.\<close>

definition bull_top_rows :: "MarketOverview \<Rightarrow> string list" where
  "bull_top_rows overview =
     [''| liang shi rong zi yu e | '' @ fmt_0f (margin_balance overview) @ ''yi |'',
      ''| liang shi zong shi zhi | '' @ fmt_0f (total_market_cap overview) @ ''yi |'',
      ''| rong zi/shi zhi bi | **'' @ fmt_2f (margin_ratio overview) @ ''%** |'',
      ''| tao ding yu zhi | 3.5% |'']"

definition bull_top_no_data :: string where
  "bull_top_no_data =
     ''zan wu shu ju (rong zi yu e huo zong shi zhi shu ju huo qu shi bai)''"

definition format_bull_top_indicator :: "MarketOverview \<Rightarrow> string" where
  "format_bull_top_indicator overview =
     (if fle (margin_ratio overview) (Fin 0) then bull_top_no_data
      else join nl
             ([''| zhi biao | shu zhi |'', ''|------|------|''] @ bull_top_rows overview
              @ [[], fst (bull_top_banner overview), [],
                 ''> [light bulb] '' @ snd (bull_top_banner overview)]))"

text \<open>
  \<^verbatim>\<open>_generate_template_review\<close>. The market mood is read off the index the generator looks
  up under the code \<^verbatim>\<open>'000001'\<close>: strong rally, mild rally, mild pullback, marked decline,
  and choppy when the lookup finds nothing.
\<close>

datatype mood = StrongRally | MildRally | MildPullback | MarkedDecline | Choppy

definition mood_text :: "mood \<Rightarrow> string" where
  "mood_text m =
     (case m of
        StrongRally \<Rightarrow> ''qiang shi shang zhang''
      | MildRally \<Rightarrow> ''xiao fu shang zhang''
      | MildPullback \<Rightarrow> ''xiao fu xia die''
      | MarkedDecline \<Rightarrow> ''ming xian xia die''
      | Choppy \<Rightarrow> ''zhen dang zheng li'')"

definition market_mood :: "MarketOverview \<Rightarrow> mood" where
  "market_mood overview =
     (case find (\<lambda>idx. code idx = ''000001'') (indices overview) of
        Some sh_index \<Rightarrow>
          if fgt (change_pct sh_index) (Fin 1) then StrongRally
          else if fgt (change_pct sh_index) (Fin 0) then MildRally
          else if fgt (change_pct sh_index) (Fin (- 1)) then MildPullback
          else MarkedDecline
      | None \<Rightarrow> Choppy)"

text \<open>One line of the index section, and the loop over \<^verbatim>\<open>overview.indices[:4]\<close>.\<close>

definition template_index_line :: "MarketIndex \<Rightarrow> string" where
  "template_index_line idx =
     ''- **'' @ name idx @ ''**: '' @ fmt_2f (current idx)
       @ '' ('' @ direction (change_pct idx) @ fmt_2f (fabs (change_pct idx)) @ ''%)'' @ nl"

definition template_indices_text :: "MarketOverview \<Rightarrow> string" where
  "template_indices_text overview =
     foldl (\<lambda>text idx. text @ template_index_line idx) [] (take 4 (indices overview))"

text \<open>
  The report, section by section; each section runs from its heading to the blank line
  before the next one. The clock reading \<^verbatim>\<open>datetime.now().strftime('%H:%M')\<close> of the last
  line is a parameter.
\<close>

definition template_title :: "MarketOverview \<Rightarrow> string" where
  "template_title overview =
     ''## [bar chart] '' @ date overview @ '' da pan fu pan'' @ nl @ nl"

definition template_summary_section :: "MarketOverview \<Rightarrow> string" where
  "template_summary_section overview =
     ''### yi, shi chang zong jie'' @ nl
     @ ''jin ri A gu shi chang zheng ti cheng xian **'' @ mood_text (market_mood overview)
     @ ''** tai shi.'' @ nl @ nl"

definition template_index_section :: "MarketOverview \<Rightarrow> string" where
  "template_index_section overview =
     ''### er, zhu yao zhi shu'' @ nl
     @ template_indices_text overview @ nl @ nl"

definition template_north_row :: "MarketOverview \<Rightarrow> string" where
  "template_north_row overview =
     ''| bei xiang zi jin | '' @ fmt_plus_2f (north_flow overview) @ ''yi |''"

definition template_breadth_section :: "MarketOverview \<Rightarrow> string" where
  "template_breadth_section overview =
     ''### san, zhang die tong ji'' @ nl
     @ ''| zhi biao | shu zhi |'' @ nl
     @ ''|------|------|'' @ nl
     @ ''| shang zhang jia shu | '' @ show_int (up_count overview) @ '' |'' @ nl
     @ ''| xia die jia shu | '' @ show_int (down_count overview) @ '' |'' @ nl
     @ ''| zhang ting | '' @ show_int (limit_up_count overview) @ '' |'' @ nl
     @ ''| die ting | '' @ show_int (limit_down_count overview) @ '' |'' @ nl
     @ ''| liang shi cheng jiao e | '' @ fmt_0f (total_amount overview) @ ''yi |'' @ nl
     @ template_north_row overview @ nl @ nl"

definition template_leverage_section :: "MarketOverview \<Rightarrow> string" where
  "template_leverage_section overview =
     ''### si, niu shi tao ding zhi biao'' @ nl
     @ format_bull_top_indicator overview @ nl @ nl"

definition template_sector_section :: "MarketOverview \<Rightarrow> string" where
  "template_sector_section overview =
     ''### wu, ban kuai biao xian'' @ nl
     @ ''- **ling zhang**: '' @ join '','' (map sector_name (take 3 (top_sectors overview))) @ nl
     @ ''- **ling die**: '' @ join '','' (map sector_name (take 3 (bottom_sectors overview)))
     @ nl @ nl"

definition template_risk_section :: string where
  "template_risk_section =
     ''### liu, feng xian ti shi'' @ nl
     @ ''shi chang you feng xian, tou zi xu jin shen. ''
     @ ''yi shang shu ju jin gong can kao, bu gou cheng tou zi jian yi.'' @ nl @ nl"

definition template_footer :: "string \<Rightarrow> string" where
  "template_footer clock = ''---'' @ nl @ ''*fu pan shi jian: '' @ clock @ ''*'' @ nl"

definition generate_template_review :: "MarketOverview \<Rightarrow> string \<Rightarrow> string" where
  "generate_template_review overview clock =
     template_title overview
     @ template_summary_section overview
     @ template_index_section overview
     @ template_breadth_section overview
     @ template_leverage_section overview
     @ template_sector_section overview
     @ template_risk_section
     @ template_footer clock"

section \<open>The prompt of the generative path\<close>

text \<open>
  \<^verbatim>\<open>_format_margin_data_for_prompt\<close>. The continuation lines of its triple-quoted string
  carry the sixteen spaces of the source's indentation.
\<close>

definition indent16 :: string where
  "indent16 = replicate 16 (CHR '' '')"

definition format_margin_data_for_prompt :: "MarketOverview \<Rightarrow> string" where
  "format_margin_data_for_prompt overview =
     (if fle (margin_ratio overview) (Fin 0) then ''zan wu shu ju''
      else ''- liang shi rong zi yu e: '' @ fmt_0f (margin_balance overview) @ ''yi'' @ nl
           @ indent16 @ ''- liang shi zong shi zhi: '' @ fmt_0f (total_market_cap overview)
           @ ''yi'' @ nl
           @ indent16 @ ''- rong zi/shi zhi bi: '' @ fmt_2f (margin_ratio overview)
           @ ''% (yu zhi: 3.5%)'' @ nl
           @ indent16
           @ (if is_bull_top_warning overview then ''[jing gao] chu fa tao ding xin hao!''
              else []))"

text \<open>A news item as the prompt reads it: its title and its snippet.\<close>

record news_item =
  title :: string
  snippet :: string

definition prompt_index_line :: "MarketIndex \<Rightarrow> string" where
  "prompt_index_line idx =
     ''- '' @ name idx @ '': '' @ fmt_2f (current idx)
       @ '' ('' @ direction (change_pct idx) @ fmt_2f (fabs (change_pct idx)) @ ''%)'' @ nl"

definition prompt_indices_text :: "MarketOverview \<Rightarrow> string" where
  "prompt_indices_text overview =
     foldl (\<lambda>text idx. text @ prompt_index_line idx) [] (indices overview)"

definition prompt_sector_text :: "sector list \<Rightarrow> string" where
  "prompt_sector_text sectors =
     join '', '' (map (\<lambda>s. sector_name s @ ''('' @ fmt_plus_2f (sector_change_pct s) @ ''%)'')
                      (take 3 sectors))"

definition prompt_news_text :: "news_item list \<Rightarrow> string" where
  "prompt_news_text news =
     foldl (\<lambda>text (i, n). text @ show_int i @ ''. '' @ take 50 (title n) @ nl
                             @ ''   '' @ take 100 (snippet n) @ nl)
       [] (zip [1..6] (take 6 news))"

definition prompt_preamble :: string where
  "prompt_preamble =
     ''ni shi yi wei zhuan ye de A gu shi chang fen xi shi, qing gen ju yi xia shu ju ''
     @ ''sheng cheng yi fen jian jie de da pan fu pan bao gao.'' @ nl @ nl
     @ ''[zhong yao] shu chu yao qiu:'' @ nl
     @ ''- bi xu shu chu chun Markdown wen ben ge shi'' @ nl
     @ ''- jin zhi shu chu JSON ge shi'' @ nl
     @ ''- jin zhi shu chu dai ma kuai'' @ nl
     @ ''- emoji jin zai biao ti chu shao liang shi yong (mei ge biao ti zui duo 1 ge)''
     @ nl @ nl
     @ ''---'' @ nl @ nl
     @ ''# jin ri shi chang shu ju'' @ nl @ nl"

definition prompt_date_section :: "MarketOverview \<Rightarrow> string" where
  "prompt_date_section overview = ''## ri qi'' @ nl @ date overview @ nl @ nl"

definition prompt_index_section :: "MarketOverview \<Rightarrow> string" where
  "prompt_index_section overview =
     ''## zhu yao zhi shu'' @ nl
     @ (if prompt_indices_text overview \<noteq> [] then prompt_indices_text overview
        else ''zan wu zhi shu shu ju (jie kou yi chang)'')
     @ nl @ nl"

definition prompt_north_line :: "MarketOverview \<Rightarrow> string" where
  "prompt_north_line overview =
     ''- bei xiang zi jin: '' @ fmt_plus_2f (north_flow overview) @ '' yi yuan''"

definition prompt_breadth_section :: "MarketOverview \<Rightarrow> string" where
  "prompt_breadth_section overview =
     ''## shi chang gai kuang'' @ nl
     @ ''- shang zhang: '' @ show_int (up_count overview) @ '' jia | xia die: ''
     @ show_int (down_count overview) @ '' jia | ping pan: ''
     @ show_int (flat_count overview) @ '' jia'' @ nl
     @ ''- zhang ting: '' @ show_int (limit_up_count overview) @ '' jia | die ting: ''
     @ show_int (limit_down_count overview) @ '' jia'' @ nl
     @ ''- liang shi cheng jiao e: '' @ fmt_0f (total_amount overview) @ '' yi yuan'' @ nl
     @ prompt_north_line overview @ nl @ nl"

definition prompt_leverage_section :: "MarketOverview \<Rightarrow> string" where
  "prompt_leverage_section overview =
     ''## niu shi tao ding zhi biao'' @ nl
     @ format_margin_data_for_prompt overview @ nl @ nl"

definition prompt_sector_section :: "MarketOverview \<Rightarrow> string" where
  "prompt_sector_section overview =
     ''## ban kuai biao xian'' @ nl
     @ ''ling zhang: ''
     @ (if prompt_sector_text (top_sectors overview) \<noteq> []
        then prompt_sector_text (top_sectors overview) else ''zan wu shu ju'') @ nl
     @ ''ling die: ''
     @ (if prompt_sector_text (bottom_sectors overview) \<noteq> []
        then prompt_sector_text (bottom_sectors overview) else ''zan wu shu ju'')
     @ nl @ nl"

definition prompt_news_section :: "news_item list \<Rightarrow> string" where
  "prompt_news_section news =
     ''## shi chang xin wen'' @ nl
     @ (if prompt_news_text news \<noteq> [] then prompt_news_text news
        else ''zan wu xiang guan xin wen'')
     @ nl @ nl"

text \<open>The guard instruction, present when there is no index line.\<close>

definition prompt_guard :: "MarketOverview \<Rightarrow> string" where
  "prompt_guard overview =
     (if prompt_indices_text overview = []
      then ''zhu yi: you yu hang qing shu ju huo qu shi bai, qing zhu yao gen ju ''
           @ ''[shi chang xin wen] jin xing ding xing fen xi he zong jie, ''
           @ ''bu yao bian zao ju ti de zhi shu dian wei.''
      else [])
     @ nl @ nl"

definition prompt_outline :: "MarketOverview \<Rightarrow> string" where
  "prompt_outline overview =
     ''---'' @ nl @ nl
     @ ''# shu chu ge shi mu ban (qing yan ge an ci ge shi shu chu)'' @ nl @ nl
     @ ''## [bar chart] '' @ date overview @ '' da pan fu pan'' @ nl @ nl
     @ ''### yi, shi chang zong jie'' @ nl
     @ ''(2-3 ju hua gai kuo jin ri shi chang zheng ti biao xian, ''
     @ ''bao kuo zhi shu zhang die, cheng jiao liang bian hua)'' @ nl @ nl
     @ ''### er, zhi shu dian ping'' @ nl
     @ ''(fen xi shang zheng, shen zheng, chuang ye ban deng ge zhi shu zou shi te dian)''
     @ nl @ nl
     @ ''### san, zi jin dong xiang'' @ nl
     @ ''(jie du cheng jiao e he bei xiang zi jin liu xiang de han yi)'' @ nl @ nl
     @ ''### si, tao ding zhi biao fen xi'' @ nl
     @ ''(fen xi rong zi yu e/zong shi zhi bi zhi, pan duan shi chang shi fou guo re, ''
     @ ''shi fou chu fa tao ding jing gao)'' @ nl @ nl
     @ ''### wu, re dian jie du'' @ nl
     @ ''(fen xi ling zhang ling die ban kuai bei hou de luo ji he qu dong yin su)''
     @ nl @ nl
     @ ''### liu, hou shi zhan wang'' @ nl
     @ ''(jie he dang qian zou shi he xin wen, gei chu ming ri shi chang yu pan)'' @ nl @ nl
     @ ''### qi, feng xian ti shi'' @ nl
     @ ''(xu yao guan zhu de feng xian dian, te bie shi ru guo tao ding zhi biao yi chang ''
     @ ''xu yao zhong dian ti shi)'' @ nl @ nl
     @ ''---'' @ nl @ nl
     @ ''qing zhi jie shu chu fu pan bao gao nei rong, bu yao shu chu qi ta shuo ming wen zi.''
     @ nl"

definition build_review_prompt :: "MarketOverview \<Rightarrow> news_item list \<Rightarrow> string" where
  "build_review_prompt overview news =
     prompt_preamble
     @ prompt_date_section overview
     @ prompt_index_section overview
     @ prompt_breadth_section overview
     @ prompt_leverage_section overview
     @ prompt_sector_section overview
     @ prompt_news_section news
     @ prompt_guard overview
     @ prompt_outline overview"

section \<open>The run\<close>

text \<open>
  \<^verbatim>\<open>generate_market_review\<close>. The analyzer is absent, or it reports whether it is available
  and answers a prompt with a text or an exception. An empty answer counts as none.
\<close>

record analyzer =
  is_available :: bool
  generate :: "string \<Rightarrow> string outcome"

definition generate_market_review ::
    "analyzer option \<Rightarrow> MarketOverview \<Rightarrow> news_item list \<Rightarrow> string \<Rightarrow> string" where
  "generate_market_review llm overview news clock =
     (case llm of
        None \<Rightarrow> generate_template_review overview clock
      | Some a \<Rightarrow>
          if \<not> is_available a then generate_template_review overview clock
          else (case generate a (build_review_prompt overview news) of
                  Raised e \<Rightarrow> generate_template_review overview clock
                | Returned review \<Rightarrow>
                    if review \<noteq> [] then review
                    else generate_template_review overview clock))"

text \<open>
  \<^verbatim>\<open>_get_sector_rankings\<close> assigns \<^verbatim>\<open>top_sectors\<close> and then \<^verbatim>\<open>bottom_sectors\<close>, or stops before
  either assignment; the ranking itself is outside this model and the stage is given by the
  lists it assigns.
\<close>

definition get_sector_rankings ::
    "MarketOverview \<Rightarrow> sector list option \<Rightarrow> sector list option \<Rightarrow> MarketOverview" where
  "get_sector_rankings overview top5 bottom5 =
     (case top5 of
        None \<Rightarrow> overview
      | Some t \<Rightarrow>
          (case bottom5 of
             None \<Rightarrow> overview\<lparr> top_sectors := t \<rparr>
           | Some b \<Rightarrow> overview\<lparr> top_sectors := t, bottom_sectors := b \<rparr>))"

text \<open>
  \<^verbatim>\<open>get_market_overview\<close>: the stages of a run, in order. The north-bound-flow stage is
  commented out in the source and is no stage of the run.
\<close>

definition get_market_overview ::
    "string \<Rightarrow> (nat \<Rightarrow> spot_table outcome) \<Rightarrow> (string \<Rightarrow> bar list outcome outcome)
       \<Rightarrow> (nat \<Rightarrow> quote_table outcome) \<Rightarrow> sector list option \<Rightarrow> sector list option
       \<Rightarrow> pyfloat \<Rightarrow> pyfloat \<Rightarrow> MarketOverview" where
  "get_market_overview today index_fetch ticker quote_fetch top5 bottom5 mb cap =
     (let overview1 = (new_overview today)
                        \<lparr> indices := fst (get_main_indices index_fetch ticker) \<rparr>;
          overview2 = get_market_statistics overview1 quote_fetch;
          overview3 = get_sector_rankings overview2 top5 bottom5
      in get_bull_market_indicator overview3 mb cap)"

section \<open>Properties of the float model\<close>

text \<open>
  The exponent function brackets its argument between two consecutive powers of two, and a
  finite result of the rounding is a multiple of the spacing at most half a spacing away
  from the exact value.
\<close>

lemma ilog2_bounds:
  assumes "0 < x"
  shows "power_int 2 (ilog2 x) \<le> x \<and> x < power_int 2 (ilog2 x + 1)"
proof (cases "1 \<le> x")
  case True
  define n where "n = \<lfloor>x\<rfloor>"
  have n: "0 < n" using True by (simp add: n_def)
  define e where "e = bitlen n - 1"
  have e0: "0 \<le> e" using n by (simp add: e_def bitlen_alt_def)
  from bitlen_bounds [OF n]
  have lo: "2 ^ nat e \<le> n" and hi: "n < 2 ^ nat (e + 1)"
    by (simp_all add: e_def)
  have il: "ilog2 x = e" using True by (simp add: ilog2_def e_def n_def)
  have "(2::rat) ^ nat e \<le> of_int n"
    using lo by (metis of_int_le_iff of_int_numeral of_int_power)
  also have "\<dots> \<le> x" by (simp add: n_def)
  finally have a: "power_int 2 e \<le> x" using e0 by (simp add: power_int_def)
  have "n + 1 \<le> 2 ^ nat (e + 1)" using hi by simp
  then have "(of_int (n + 1) :: rat) \<le> 2 ^ nat (e + 1)"
    by (metis of_int_le_iff of_int_numeral of_int_power)
  moreover have "x < of_int (n + 1)" using floor_correct [of x] by (simp add: n_def)
  ultimately have b: "x < power_int 2 (e + 1)" using e0 by (simp add: power_int_def)
  show ?thesis using a b il by simp
next
  case False
  then have x1: "x < 1" by simp
  define y where "y = 1 / x"
  have y1: "1 < y" using assms x1 by (simp add: y_def)
  define m where "m = \<lceil>y\<rceil>"
  have m: "0 < m - 1" using y1 by (simp add: m_def less_ceiling_iff)
  define k where "k = bitlen (m - 1)"
  have k1: "1 \<le> k" using m by (simp add: k_def bitlen_alt_def)
  from bitlen_bounds [OF m]
  have lo: "2 ^ nat (k - 1) \<le> m - 1" and hi: "m - 1 < 2 ^ nat k"
    by (simp_all add: k_def)
  have il: "ilog2 x = - k" using False by (simp add: ilog2_def k_def m_def y_def)
  have "m \<le> 2 ^ nat k" using hi by simp
  then have "(of_int m :: rat) \<le> 2 ^ nat k"
    by (metis of_int_le_iff of_int_numeral of_int_power)
  moreover have "y \<le> of_int m" using ceiling_correct [of y] by (simp add: m_def)
  ultimately have yk: "y \<le> 2 ^ nat k" by (rule order_trans [rotated])
  have "(2::rat) ^ nat (k - 1) \<le> of_int (m - 1)"
    using lo by (metis of_int_le_iff of_int_numeral of_int_power)
  moreover have "of_int (m - 1) < y"
    using ceiling_correct [of y] by (simp add: m_def)
  ultimately have ky: "2 ^ nat (k - 1) < y" by (rule le_less_trans)
  have pk: "power_int (2::rat) (- k) = 1 / 2 ^ nat k"
    using k1 by (simp add: power_int_def field_simps)
  have pk1: "power_int (2::rat) (- k + 1) = 1 / 2 ^ nat (k - 1)"
    using k1 by (simp add: power_int_def field_simps)
  have xy: "x = 1 / y" using assms by (simp add: y_def)
  have a: "power_int 2 (- k) \<le> x"
    using yk y1 unfolding pk xy by (simp add: field_simps)
  have b: "x < power_int 2 (- k + 1)"
    using ky y1 unfolding pk1 xy by (simp add: field_simps)
  show ?thesis using a b il by simp
qed

lemma round_half_even_nearest:
  "\<bar>of_int (round_half_even x) - x\<bar> \<le> 1 / 2"
proof -
  have "of_int \<lfloor>x\<rfloor> \<le> x" "x < of_int \<lfloor>x\<rfloor> + 1"
    using floor_correct [of x] by simp_all
  then show ?thesis
    by (auto simp add: round_half_even_def Let_def abs_le_iff)
qed

lemma binary64_nearest:
  assumes "binary64 x = Fin y"
  shows "\<exists>m. y = of_int m * power_int 2 (max (ilog2 \<bar>x\<bar>) (- 1022) - 52)
            \<and> \<bar>y - x\<bar> \<le> power_int 2 (max (ilog2 \<bar>x\<bar>) (- 1022) - 52) / 2"
proof (cases "x = 0")
  case True
  with assms have "y = 0" by (simp add: binary64_def)
  with True show ?thesis by (intro exI [of _ 0]) simp
next
  case False
  define u :: rat where "u = power_int 2 (max (ilog2 \<bar>x\<bar>) (- 1022) - 52)"
  have u: "0 < u" by (simp add: u_def)
  define m where "m = round_half_even (x / u)"
  have y: "y = of_int m * u"
    using assms False by (simp add: binary64_def Let_def u_def m_def split: if_splits)
  have "\<bar>of_int m - x / u\<bar> \<le> 1 / 2"
    unfolding m_def by (rule round_half_even_nearest)
  then have "\<bar>of_int m - x / u\<bar> * u \<le> 1 / 2 * u"
    using u by (simp only: mult_le_cancel_right_pos)
  moreover have "\<bar>of_int m - x / u\<bar> * u = \<bar>of_int m * u - x\<bar>"
  proof -
    have "\<bar>of_int m - x / u\<bar> * u = \<bar>of_int m - x / u\<bar> * \<bar>u\<bar>"
      using u by simp
    also have "\<dots> = \<bar>(of_int m - x / u) * u\<bar>"
      by (simp only: abs_mult)
    also have "(of_int m - x / u) * u = of_int m * u - x"
      using u by (simp add: left_diff_distrib)
    finally show ?thesis .
  qed
  ultimately have "\<bar>y - x\<bar> \<le> u / 2"
    by (simp add: y)
  with y show ?thesis
    unfolding u_def by blast
qed

text \<open>
  Two known values: one tenth is not a binary64 number and rounds up to
  \<open>3602879701896397 / 2^55\<close>; three and a half is one.
\<close>

lemma binary64_known_values:
  "binary64 (1 / 10) = Fin (3602879701896397 / 2 ^ 55)"
  "binary64 (7 / 2) = Fin (7 / 2)"
  by code_simp+

section \<open>Properties of the leverage indicator\<close>

lemma indicator_incomplete:
  "\<not> (fgt mb (Fin 0) \<and> fgt cap (Fin 0)) \<Longrightarrow> get_bull_market_indicator ov mb cap = ov"
  by (auto simp add: get_bull_market_indicator_def)

lemma fdiv_positive_divisor:
  "fgt cap (Fin 0) \<Longrightarrow> \<exists>q. fdiv mb cap = Inr q"
  by (cases mb; cases cap) (simp_all add: fdiv_def fgt_def flt_def)

text \<open>
  Claim C1. A run of the leverage indicator either sets all four derived fields or none of
  them. When the fetched margin balance and the fetched total market cap are both strictly
  positive, the two inputs are stored, the stored ratio is
  \<^verbatim>\<open>round(margin_balance / total_market_cap * 100, 2)\<close> and the flag is the comparison of the
  unrounded ratio with 3.5. In every other case (an input that is zero because its source was
  unavailable, negative, or \<^verbatim>\<open>nan\<close>) the overview is returned as it was, so that on the fresh
  overview of a run the four fields keep their defaults \<open>0\<close>, \<open>0\<close>, \<open>0\<close> and \<open>False\<close>.
\<close>

theorem C1_leverage_all_or_nothing:
  "(\<not> (fgt mb (Fin 0) \<and> fgt cap (Fin 0)) \<longrightarrow>
      get_bull_market_indicator overview mb cap = overview
      \<and> margin_balance (get_bull_market_indicator (new_overview today) mb cap) = Fin 0
      \<and> total_market_cap (get_bull_market_indicator (new_overview today) mb cap) = Fin 0
      \<and> margin_ratio (get_bull_market_indicator (new_overview today) mb cap) = Fin 0
      \<and> is_bull_top_warning (get_bull_market_indicator (new_overview today) mb cap) = False)
   \<and> (margin_ratio (get_bull_market_indicator (new_overview today) mb cap) \<noteq> Fin 0
        \<or> is_bull_top_warning (get_bull_market_indicator (new_overview today) mb cap) \<longrightarrow>
      fgt mb (Fin 0) \<and> fgt cap (Fin 0))
   \<and> (fgt mb (Fin 0) \<and> fgt cap (Fin 0) \<longrightarrow>
      (\<exists>q. fdiv mb cap = Inr q
         \<and> margin_balance (get_bull_market_indicator overview mb cap) = mb
         \<and> total_market_cap (get_bull_market_indicator overview mb cap) = cap
         \<and> margin_ratio (get_bull_market_indicator overview mb cap)
             = round2 (fmul q (Fin 100))
         \<and> is_bull_top_warning (get_bull_market_indicator overview mb cap)
             = fgt (fmul q (Fin 100)) (Fin (7 / 2))))"
proof (cases "fgt mb (Fin 0) \<and> fgt cap (Fin 0)")
  case True
  then obtain q where q: "fdiv mb cap = Inr q"
    using fdiv_positive_divisor by blast
  have "get_bull_market_indicator overview mb cap =
          overview\<lparr> margin_balance := mb, total_market_cap := cap,
                     margin_ratio := round2 (fmul q (Fin 100)),
                     is_bull_top_warning := fgt (fmul q (Fin 100)) (Fin (7 / 2)) \<rparr>"
    using True q by (simp add: get_bull_market_indicator_def Let_def)
  with True q show ?thesis
    by simp
next
  case False
  then have "get_bull_market_indicator ov mb cap = ov" for ov
    by (rule indicator_incomplete)
  with False show ?thesis
    by (auto simp add: new_overview_def)
qed

text \<open>
  Both cases occur: a balance of 200 against a cap of 10000 stores the ratio 2.0 without a
  warning, and an unavailable balance leaves the fresh overview as it is.
\<close>

theorem C1_leverage_all_or_nothing_witness:
  "fgt (Fin 200) (Fin 0) \<and> fgt (Fin 10000) (Fin 0)
   \<and> margin_balance (get_bull_market_indicator (new_overview ''2024-01-02'') (Fin 200)
                       (Fin 10000)) = Fin 200
   \<and> margin_ratio (get_bull_market_indicator (new_overview ''2024-01-02'') (Fin 200)
                     (Fin 10000)) = Fin 2
   \<and> is_bull_top_warning (get_bull_market_indicator (new_overview ''2024-01-02'') (Fin 200)
                            (Fin 10000)) = False
   \<and> \<not> (fgt (Fin 0) (Fin 0) \<and> fgt (Fin 10000) (Fin 0))
   \<and> get_bull_market_indicator (new_overview ''2024-01-02'') (Fin 0) (Fin 10000)
       = new_overview ''2024-01-02''"
proof -
  let ?ov = "new_overview ''2024-01-02''"
  have pos: "fgt (Fin 200) (Fin 0) \<and> fgt (Fin 10000) (Fin 0)"
    by (simp add: fgt_def flt_def)
  have zero: "\<not> (fgt (Fin 0) (Fin 0) \<and> fgt (Fin 10000) (Fin 0))"
    by (simp add: fgt_def flt_def)
  from C1_leverage_all_or_nothing [of "Fin 200" "Fin 10000" ?ov "''2024-01-02''"] pos
  obtain q where q: "fdiv (Fin 200) (Fin 10000) = Inr q"
    and stored: "margin_balance (get_bull_market_indicator ?ov (Fin 200) (Fin 10000)) = Fin 200"
    and ratio: "margin_ratio (get_bull_market_indicator ?ov (Fin 200) (Fin 10000))
                  = round2 (fmul q (Fin 100))"
    and flag: "is_bull_top_warning (get_bull_market_indicator ?ov (Fin 200) (Fin 10000))
                 = fgt (fmul q (Fin 100)) (Fin (7 / 2))"
    by blast
  have "fdiv (Fin 200) (Fin 10000) = Inr (binary64 (1 / 50))"
    by (simp add: fdiv_def)
  with q have q_eq: "q = binary64 (1 / 50)"
    by simp
  have value_ratio: "round2 (fmul (binary64 (1 / 50)) (Fin 100)) = Fin 2"
    by code_simp
  have value_flag: "fgt (fmul (binary64 (1 / 50)) (Fin 100)) (Fin (7 / 2)) = False"
    by code_simp
  from C1_leverage_all_or_nothing [of "Fin 0" "Fin 10000" ?ov "''2024-01-02''"] zero
  have unchanged: "get_bull_market_indicator ?ov (Fin 0) (Fin 10000) = ?ov"
    by blast
  show ?thesis
    using pos zero stored ratio flag unchanged
    by (simp only: q_eq value_ratio value_flag simp_thms)
qed

text \<open>
  Claim C2. At margin balance 350 and total market cap 10000 the stored ratio is exactly 3.5,
  the quotient times 100 rounded to two decimals. The flag, however, is computed from the
  unrounded binary64 product: \<^verbatim>\<open>350 / 10000\<close> is the float just above 0.035, and its product
  with 100 rounds to \<open>3.5 + 2^-51\<close>, which is greater than 3.5. The program therefore raises
  the warning at a ratio of exactly 3.5 percent. At 351 and 10000 the ratio is 3.51 and the
  flag is set, as the strict rule requires.
\<close>

theorem C2_boundary_350_10000:
  "margin_ratio (get_bull_market_indicator (new_overview today) (Fin 350) (Fin 10000))
     = Fin (7 / 2)
   \<and> fdiv (Fin 350) (Fin 10000) = Inr (Fin (5044031582654956 / 2 ^ 57))
   \<and> fmul (Fin (5044031582654956 / 2 ^ 57)) (Fin 100) = Fin (7 / 2 + 1 / 2 ^ 51)
   \<and> is_bull_top_warning (get_bull_market_indicator (new_overview today) (Fin 350) (Fin 10000))
     = True
   \<and> is_bull_top_warning (get_bull_market_indicator (new_overview today) (Fin 351) (Fin 10000))
     = True"
  by code_simp

section \<open>Properties of the retrying fetcher\<close>

lemma retry_loop_success:
  "\<forall>j<m. \<exists>e. fn (k + j) = Raised e \<Longrightarrow> fn (k + m) = Returned v \<Longrightarrow> a + int m \<le> n \<Longrightarrow>
   retry_loop fn n [a..n] k trace =
     (Returned (Some v), trace @ concat (map (backoff n) [a..a + int m - 1]))"
proof (induction m arbitrary: a k trace)
  case 0
  then have "[a..n] = a # [a + 1..n]" by (simp add: upto_rec1)
  with 0 show ?case by simp
next
  case (Suc m)
  from Suc.prems(1) obtain e where e: "fn k = Raised e" by force
  have step: "[a..n] = a # [a + 1..n]" using Suc.prems(3) by (simp add: upto_rec1)
  have p1: "\<forall>j<m. \<exists>e. fn (Suc k + j) = Raised e" using Suc.prems(1) by force
  have p2: "fn (Suc k + m) = Returned v" using Suc.prems(2) by simp
  have p3: "(a + 1) + int m \<le> n" using Suc.prems(3) by simp
  have up: "[a..a + int (Suc m) - 1] = a # [a + 1..a + 1 + int m - 1]"
    by (simp add: upto_rec1)
  show ?case
    using Suc.IH [OF p1 p2 p3] e step up by (simp add: backoff_def)
qed

lemma retry_loop_exhausted:
  "\<forall>j. int j \<le> n - a \<longrightarrow> (\<exists>e. fn (k + j) = Raised e) \<Longrightarrow>
   retry_loop fn n [a..n] k trace =
     (Returned None, trace @ concat (map (backoff n) [a..n]) @ [LogError])"
proof (induction "nat (n - a + 1)" arbitrary: a k trace)
  case 0
  then have "[a..n] = []" by simp
  then show ?case by simp
next
  case (Suc d)
  then have an: "a \<le> n" by linarith
  have step: "[a..n] = a # [a + 1..n]" using an by (simp add: upto_rec1)
  from Suc.prems an obtain e where e: "fn k = Raised e"
    by (metis add.right_neutral diff_ge_0_iff_ge of_nat_0)
  have d: "d = nat (n - (a + 1) + 1)" using Suc.hyps(2) by linarith
  have p: "\<forall>j. int j \<le> n - (a + 1) \<longrightarrow> (\<exists>e. fn (Suc k + j) = Raised e)"
  proof (intro allI impI)
    fix j assume "int j \<le> n - (a + 1)"
    then have "int (Suc j) \<le> n - a" by simp
    with Suc.prems show "\<exists>e. fn (Suc k + j) = Raised e" by (metis add_Suc_shift)
  qed
  show ?case
    using Suc.hyps(1) [OF d p] e step by (simp add: backoff_def)
qed

lemma retry_loop_returns:
  "\<exists>r t. retry_loop fn n as k trace = (Returned r, t)"
  by (induction as arbitrary: k trace) (auto split: outcome.splits)

lemma sleeps_append: "sleeps (xs @ ys) = sleeps xs @ sleeps ys"
  by (simp add: sleeps_def)

lemma sleeps_backoff:
  "sleeps (concat (map (backoff n) [a..b])) =
     map (\<lambda>i. min (2 ^ nat i) 5) [a..min b (n - 1)]"
proof (induction "nat (b - a + 1)" arbitrary: a)
  case 0
  then have "[a..b] = []" "[a..min b (n - 1)] = []" by simp_all
  then show ?case by (simp add: sleeps_def)
next
  case (Suc d)
  then have ab: "a \<le> b" by linarith
  have step: "[a..b] = a # [a + 1..b]" using ab by (simp add: upto_rec1)
  have d: "d = nat (b - (a + 1) + 1)" using Suc.hyps(2) by linarith
  show ?case
  proof (cases "a < n")
    case True
    then have "[a..min b (n - 1)] = a # [a + 1..min b (n - 1)]"
      using ab by (simp add: upto_rec1)
    with Suc.hyps(1) [OF d] step True show ?thesis
      by (simp add: sleeps_def backoff_def)
  next
    case False
    then have "[a..min b (n - 1)] = []" "[a + 1..min b (n - 1)] = []" by simp_all
    with Suc.hyps(1) [OF d] step False show ?thesis
      by (simp add: sleeps_def backoff_def)
  qed
qed

text \<open>
  Claim C9. The retrying fetcher never raises an exception of the wrapped operation: it
  always returns. If the operation first succeeds at its call number \<open>k\<close> (counted from 0)
  and \<open>k\<close> is below the attempt count, the wrapper returns that call's value, having slept
  \<^verbatim>\<open>min(2 ** attempt, 5)\<close> after each of the failed attempts \<open>1, ..., k\<close>. If every attempt
  fails, it returns \<^verbatim>\<open>None\<close>, having slept after every failed attempt but the last. The
  attempt count defaults to 2.
\<close>

theorem C9_retry:
  "(\<exists>r trace. call_akshare_with_retry fn attempts = (Returned r, trace))
   \<and> (int k < attempts \<longrightarrow> (\<forall>j<k. \<exists>e. fn j = Raised e) \<longrightarrow> fn k = Returned v \<longrightarrow>
        fst (call_akshare_with_retry fn attempts) = Returned (Some v)
        \<and> sleeps (snd (call_akshare_with_retry fn attempts))
            = map (\<lambda>attempt. min (2 ^ nat attempt) 5) [1..int k])
   \<and> ((\<forall>j. int j < attempts \<longrightarrow> (\<exists>e. fn j = Raised e)) \<longrightarrow>
        fst (call_akshare_with_retry fn attempts) = Returned None
        \<and> sleeps (snd (call_akshare_with_retry fn attempts))
            = map (\<lambda>attempt. min (2 ^ nat attempt) 5) [1..attempts - 1])
   \<and> default_attempts = 2"
proof (intro conjI impI)
  show "\<exists>r trace. call_akshare_with_retry fn attempts = (Returned r, trace)"
    unfolding call_akshare_with_retry_def by (rule retry_loop_returns)
next
  assume k: "int k < attempts" and fails: "\<forall>j<k. \<exists>e. fn j = Raised e" and ok: "fn k = Returned v"
  have "retry_loop fn attempts [1..attempts] 0 [] =
          (Returned (Some v), [] @ concat (map (backoff attempts) [1..1 + int k - 1]))"
    using fails ok k by (intro retry_loop_success) simp_all
  then have run: "call_akshare_with_retry fn attempts =
          (Returned (Some v), concat (map (backoff attempts) [1..int k]))"
    by (simp add: call_akshare_with_retry_def)
  show "fst (call_akshare_with_retry fn attempts) = Returned (Some v)"
    by (simp add: run)
  have "min (int k) (attempts - 1) = int k" using k by simp
  then show "sleeps (snd (call_akshare_with_retry fn attempts))
            = map (\<lambda>attempt. min (2 ^ nat attempt) 5) [1..int k]"
    by (simp add: run sleeps_backoff)
next
  assume fails: "\<forall>j. int j < attempts \<longrightarrow> (\<exists>e. fn j = Raised e)"
  have "retry_loop fn attempts [1..attempts] 0 [] =
          (Returned None, [] @ concat (map (backoff attempts) [1..attempts]) @ [LogError])"
    using fails by (intro retry_loop_exhausted) simp
  then have run: "call_akshare_with_retry fn attempts =
          (Returned None, concat (map (backoff attempts) [1..attempts]) @ [LogError])"
    by (simp add: call_akshare_with_retry_def)
  show "fst (call_akshare_with_retry fn attempts) = Returned None"
    by (simp add: run)
  have "sleeps [LogError] = []" by (simp add: sleeps_def)
  then show "sleeps (snd (call_akshare_with_retry fn attempts))
            = map (\<lambda>attempt. min (2 ^ nat attempt) 5) [1..attempts - 1]"
    by (simp add: run sleeps_append sleeps_backoff)
next
  show "default_attempts = 2" by (simp add: default_attempts_def)
qed

theorem C9_retry_witness:
  "fst (call_akshare_with_retry (\<lambda>k. if k < 2 then Raised SourceError else Returned (7::int)) 4)
     = Returned (Some 7)
   \<and> sleeps (snd (call_akshare_with_retry
                     (\<lambda>k. if k < 2 then Raised SourceError else Returned (7::int)) 4)) = [2, 4]
   \<and> fst (call_akshare_with_retry (\<lambda>k. (Raised SourceError :: int outcome)) 4) = Returned None
   \<and> sleeps (snd (call_akshare_with_retry (\<lambda>k. (Raised SourceError :: int outcome)) 4))
       = [2, 4, 5]"
proof -
  let ?f = "\<lambda>k::nat. if k < 2 then Raised SourceError else Returned (7::int)"
  let ?g = "\<lambda>k::nat. (Raised SourceError :: int outcome)"
  have up2: "[1..2::int] = [1, 2]" and up3: "[1..3::int] = [1, 2, 3]"
    by (simp_all add: upto_rec1)
  have a: "int 2 < 4" by simp
  have b: "\<forall>j<2. \<exists>e. ?f j = Raised e" by simp
  have c: "?f 2 = Returned 7" by simp
  have d: "\<forall>j. int j < 4 \<longrightarrow> (\<exists>e. ?g j = Raised e)" by simp
  from C9_retry [of ?f 4 2 7] a b c
  have first: "fst (call_akshare_with_retry ?f 4) = Returned (Some 7)
      \<and> sleeps (snd (call_akshare_with_retry ?f 4)) = [2, 4]"
    by (simp add: up2)
  from C9_retry [of ?g 4 0 0] d
  have second: "fst (call_akshare_with_retry ?g 4) = Returned None
      \<and> sleeps (snd (call_akshare_with_retry ?g 4)) = [2, 4, 5]"
    by (simp add: up3)
  from first second show ?thesis by simp
qed


section \<open>Properties of the index resolver\<close>

lemma lookup_entry:
  "lookup ticker (ak_code, yf_code, nm) =
     (case ticker yf_code of
        Raised e \<Rightarrow> None
      | Returned result \<Rightarrow> yfinance_index ak_code nm result)"
  by (simp add: lookup_def)

lemma constructed_entry:
  "constructed ticker (ak_code, yf_code, nm) = (\<exists>result. ticker yf_code = Returned result)"
  by (simp add: constructed_def split: outcome.splits)

text \<open>
  The loop visits the entries up to the first one whose ticker object cannot be constructed.
  It passes the symbols of the visited entries and of that one to the source, and returns
  the index of every visited entry whose lookup yields one.
\<close>

lemma yfinance_loop_each:
  "\<forall>entry \<in> set m. fst entry \<in> set (map fst MAIN_INDICES) \<Longrightarrow>
   yfinance_loop ticker m found asked =
     (found @ List.map_filter (lookup ticker) (takeWhile (constructed ticker) m),
      asked @ map (fst \<circ> snd) (take (Suc (length (takeWhile (constructed ticker) m))) m))"
proof (induction m arbitrary: found asked)
  case Nil
  show ?case by simp
next
  case (Cons entry m)
  obtain ak_code yf_code nm where entry: "entry = (ak_code, yf_code, nm)"
    by (cases entry) auto
  from Cons.prems have tracked: "ak_code \<in> set (map fst MAIN_INDICES)"
    by (simp add: entry)
  from Cons.prems have rest: "\<forall>entry \<in> set m. fst entry \<in> set (map fst MAIN_INDICES)"
    by simp
  show ?case
  proof (cases "ticker yf_code")
    case (Raised e)
    then have "\<not> constructed ticker entry"
      by (simp add: entry constructed_entry)
    with Raised tracked show ?thesis
      by (simp add: entry)
  next
    case (Returned result)
    then have made: "constructed ticker entry"
      by (simp add: entry constructed_entry)
    have found_entry: "lookup ticker entry = yfinance_index ak_code nm result"
      using Returned by (simp add: entry lookup_entry)
    show ?thesis
    proof (cases "yfinance_index ak_code nm result")
      case None
      then have "yfinance_loop ticker (entry # m) found asked =
                   yfinance_loop ticker m found (asked @ [yf_code])"
        using Returned tracked by (simp add: entry)
      also note Cons.IH [OF rest, of found "asked @ [yf_code]"]
      finally show ?thesis
        using made found_entry None by (simp add: entry)
    next
      case (Some index)
      then have "yfinance_loop ticker (entry # m) found asked =
                   yfinance_loop ticker m (found @ [index]) (asked @ [yf_code])"
        using Returned tracked by (simp add: entry)
      also note Cons.IH [OF rest, of "found @ [index]" "asked @ [yf_code]"]
      finally show ?thesis
        using made found_entry Some by (simp add: entry)
    qed
  qed
qed

lemma yf_mapping_tracked:
  "\<forall>entry \<in> set yf_mapping. fst entry \<in> set (map fst MAIN_INDICES)"
  by (simp add: yf_mapping_def MAIN_INDICES_def)

lemma get_indices_from_yfinance_each:
  "get_indices_from_yfinance ticker =
     (List.map_filter (lookup ticker) (takeWhile (constructed ticker) yf_mapping),
      map (fst \<circ> snd)
        (take (Suc (length (takeWhile (constructed ticker) yf_mapping))) yf_mapping))"
  unfolding get_indices_from_yfinance_def
  using yfinance_loop_each [OF yf_mapping_tracked, of ticker "[]" "[]"] by simp









section \<open>Properties of the breadth calculator\<close>

text \<open>
  Claim C8. On a full-market table whose percent-change column holds
  \<^verbatim>\<open>[10.0, 9.9, 5, 0, -3, -9.9, -10, NaN]\<close> the breadth calculator counts 3 advancers,
  3 decliners, 1 unchanged, 2 at limit-up (change at least 9.9) and 2 at limit-down (change at
  most -9.9). The counts of advancers, decliners and unchanged add up to 7: the \<^verbatim>\<open>NaN\<close> row
  is in no bucket.
\<close>

theorem C8_breadth_example:
  "(let df = \<lparr> n_rows = 8,
                zhangdiefu_col =
                  Some [Numeric (Fin 10), Numeric (binary64 (99 / 10)), Numeric (Fin 5),
                        Numeric (Fin 0), Numeric (Fin (- 3)),
                        Numeric (fneg (binary64 (99 / 10))), Numeric (Fin (- 10)),
                        Numeric NaN],
                chengjiaoe_sum = None \<rparr>;
        overview = get_market_statistics (new_overview today) (\<lambda>k. Returned df)
    in up_count overview = 3 \<and> down_count overview = 3 \<and> flat_count overview = 1
       \<and> limit_up_count overview = 2 \<and> limit_down_count overview = 2)"
  by code_simp

section \<open>Properties of the reports\<close>

subsection \<open>Evaluation of the number formats at zero\<close>

lemma show_int_zero: "show_int 0 = ''0''"
  by code_simp

lemma fmt_0f_zero: "fmt_0f (Fin 0) = ''0''"
  by code_simp

lemma fmt_plus_2f_zero: "fmt_plus_2f (Fin 0) = ''+0.00''"
  by code_simp

subsection \<open>The stages of a run leave the other fields alone\<close>

lemma statistics_frame:
  "north_flow (get_market_statistics overview fetch) = north_flow overview
   \<and> indices (get_market_statistics overview fetch) = indices overview"
  by (simp add: get_market_statistics_def turnover_def breadth_counts_def Let_def
        split: outcome.splits option.splits sum.splits)

lemma sector_frame:
  "north_flow (get_sector_rankings overview top5 bottom5) = north_flow overview
   \<and> indices (get_sector_rankings overview top5 bottom5) = indices overview"
  by (simp add: get_sector_rankings_def split: option.splits)

lemma indicator_frame:
  "north_flow (get_bull_market_indicator overview mb cap) = north_flow overview
   \<and> indices (get_bull_market_indicator overview mb cap) = indices overview"
  by (simp add: get_bull_market_indicator_def Let_def split: sum.splits)

lemma run_north_flow:
  "north_flow (get_market_overview today index_fetch ticker quote_fetch top5 bottom5 mb cap)
     = Fin 0"
  by (simp add: get_market_overview_def Let_def indicator_frame sector_frame statistics_frame
        new_overview_def)

lemma run_indices:
  "indices (get_market_overview today index_fetch ticker quote_fetch top5 bottom5 mb cap)
     = fst (get_main_indices index_fetch ticker)"
  by (simp add: get_market_overview_def Let_def indicator_frame sector_frame statistics_frame)

subsection \<open>The leverage section\<close>

lemma banners_distinct:
  "distinct [banner_warning, banner_watch, banner_normal, banner_cool]"
  by (simp add: banner_warning_def banner_watch_def banner_normal_def banner_cool_def)

text \<open>
  Claim C3, as the program has it. The leverage section of the fallback report is a single
  no-data line when the stored ratio is not positive. Otherwise it is a table of four rows
  followed by one of four banners, each with its advisory sentence. The warning banner is
  chosen by the warning flag, that is, for a snapshot of the leverage indicator, when the
  unrounded ratio exceeds 3.5; it is not chosen by the stored, rounded ratio reaching 3.5.
  Without the flag the banner is watch for a stored ratio above 3.0, normal above 2.5, and
  cool otherwise.
\<close>

theorem C3_banner_tiers:
  "format_bull_top_indicator overview =
     (if fle (margin_ratio overview) (Fin 0) then bull_top_no_data
      else join nl ([''| zhi biao | shu zhi |'', ''|------|------|''] @ bull_top_rows overview
                    @ [[], fst (bull_top_banner overview), [],
                       ''> [light bulb] '' @ snd (bull_top_banner overview)]))
   \<and> length (bull_top_rows overview) = 4
   \<and> bull_top_banner overview =
       (if is_bull_top_warning overview then banner_warning
        else if fgt (margin_ratio overview) (Fin 3) then banner_watch
        else if fgt (margin_ratio overview) (Fin (5 / 2)) then banner_normal
        else banner_cool)
   \<and> distinct [banner_warning, banner_watch, banner_normal, banner_cool]
   \<and> (let r = get_bull_market_indicator overview mb cap
      in if fgt mb (Fin 0) \<and> fgt cap (Fin 0)
         then \<exists>q. fdiv mb cap = Inr q
                \<and> bull_top_banner r =
                    (if fgt (fmul q (Fin 100)) (Fin (7 / 2)) then banner_warning
                     else if fgt (round2 (fmul q (Fin 100))) (Fin 3) then banner_watch
                     else if fgt (round2 (fmul q (Fin 100))) (Fin (5 / 2)) then banner_normal
                     else banner_cool)
         else bull_top_banner r = bull_top_banner overview)"
proof -
  have layout: "format_bull_top_indicator overview =
     (if fle (margin_ratio overview) (Fin 0) then bull_top_no_data
      else join nl ([''| zhi biao | shu zhi |'', ''|------|------|''] @ bull_top_rows overview
                    @ [[], fst (bull_top_banner overview), [],
                       ''> [light bulb] '' @ snd (bull_top_banner overview)]))"
    by (simp add: format_bull_top_indicator_def)
  have rows: "length (bull_top_rows overview) = 4"
    by (simp add: bull_top_rows_def)
  have tiers: "bull_top_banner overview =
       (if is_bull_top_warning overview then banner_warning
        else if fgt (margin_ratio overview) (Fin 3) then banner_watch
        else if fgt (margin_ratio overview) (Fin (5 / 2)) then banner_normal
        else banner_cool)"
    by (simp add: bull_top_banner_def)
  have run: "let r = get_bull_market_indicator overview mb cap
      in if fgt mb (Fin 0) \<and> fgt cap (Fin 0)
         then \<exists>q. fdiv mb cap = Inr q
                \<and> bull_top_banner r =
                    (if fgt (fmul q (Fin 100)) (Fin (7 / 2)) then banner_warning
                     else if fgt (round2 (fmul q (Fin 100))) (Fin 3) then banner_watch
                     else if fgt (round2 (fmul q (Fin 100))) (Fin (5 / 2)) then banner_normal
                     else banner_cool)
         else bull_top_banner r = bull_top_banner overview"
  proof (cases "fgt mb (Fin 0) \<and> fgt cap (Fin 0)")
    case True
    then obtain q where q: "fdiv mb cap = Inr q"
      using fdiv_positive_divisor by blast
    with True show ?thesis
      by (simp add: get_bull_market_indicator_def Let_def bull_top_banner_def)
  next
    case False
    then have "get_bull_market_indicator overview mb cap = overview"
      by (rule indicator_incomplete)
    with False show ?thesis
      by (auto simp add: Let_def)
  qed
  show ?thesis
    by (intro conjI layout rows tiers banners_distinct run)
qed

text \<open>
  The claim's rule "a ratio of at least 3.5 yields the warning banner" fails: margin balance
  3496 against a market cap of 100000 gives the unrounded ratio 3.496, stored as 3.5, and
  the banner is watch.
\<close>

theorem C3_banner_counterexample:
  "margin_ratio (get_bull_market_indicator (new_overview ''2024-01-02'') (Fin 3496)
                   (Fin 100000)) = Fin (7 / 2)
   \<and> fge (margin_ratio (get_bull_market_indicator (new_overview ''2024-01-02'') (Fin 3496)
                          (Fin 100000))) (Fin (7 / 2))
   \<and> bull_top_banner (get_bull_market_indicator (new_overview ''2024-01-02'') (Fin 3496)
                        (Fin 100000)) = banner_watch
   \<and> bull_top_banner (get_bull_market_indicator (new_overview ''2024-01-02'') (Fin 3496)
                        (Fin 100000)) \<noteq> banner_warning"
  by code_simp

subsection \<open>The market mood\<close>

lemma make_index_code:
  "make_index c nm row = Inr idx \<Longrightarrow> code idx = c"
  by (auto simp add: make_index_def try_bind_def Let_def split: sum.splits if_splits)

lemma match_loop_codes:
  "set (map code (fst (match_loop df m acc))) \<subseteq> set (map code acc) \<union> set (map fst m)"
proof (induction m arbitrary: acc)
  case Nil
  show ?case by simp
next
  case (Cons entry m)
  obtain c nm where entry: "entry = (c, nm)" by (cases entry) auto
  show ?case
  proof (cases "has_code_column df")
    case False
    then show ?thesis by (auto simp add: entry)
  next
    case True
    define row where "row = (if filter (\<lambda>r. daima r = c) (spot_rows df) = []
                            then filter (\<lambda>r. sublist c (daima r)) (spot_rows df)
                            else filter (\<lambda>r. daima r = c) (spot_rows df))"
    show ?thesis
    proof (cases row)
      case Nil
      then have "match_loop df (entry # m) acc = match_loop df m acc"
        using True by (simp add: entry row_def Let_def)
      then show ?thesis
        using Cons.IH [of acc] by auto
    next
      case (Cons r rs)
      show ?thesis
      proof (cases "make_index c nm r")
        case (Inl e)
        then have "match_loop df (entry # m) acc = (acc, Some e)"
          using True Cons by (simp add: entry row_def Let_def)
        then show ?thesis by auto
      next
        case (Inr idx)
        then have step: "match_loop df (entry # m) acc = match_loop df m (acc @ [idx])"
          using True Cons by (simp add: entry row_def Let_def)
        have "code idx = c"
          using Inr by (rule make_index_code)
        then show ?thesis
          using Cons.IH [of "acc @ [idx]"] step by (auto simp add: entry)
      qed
    qed
  qed
qed

lemma primary_indices_codes:
  "set (map code (primary_indices fetch)) \<subseteq> set (map fst MAIN_INDICES)"
proof -
  have "set (map code (fst (match_loop df MAIN_INDICES []))) \<subseteq> set (map fst MAIN_INDICES)" for df
    using match_loop_codes [of df MAIN_INDICES "[]"] by simp
  then show ?thesis
    by (auto simp add: primary_indices_def split: outcome.splits option.splits)
qed

lemma lookup_code:
  "lookup ticker (ak_code, yf_code, nm) = Some idx \<Longrightarrow> code idx = ak_code"
  by (auto simp add: lookup_def yfinance_index_def Let_def
      split: outcome.splits if_splits sum.splits)

lemma map_filter_lookup_codes:
  "set (map code (List.map_filter (lookup ticker) m)) \<subseteq> set (map fst m)"
proof (induction m)
  case Nil
  show ?case by simp
next
  case (Cons entry m)
  obtain ak_code yf_code nm where entry: "entry = (ak_code, yf_code, nm)"
    by (cases entry) auto
  show ?case
    using Cons.IH lookup_code [of ticker ak_code yf_code nm]
    by (cases "lookup ticker (ak_code, yf_code, nm)") (auto simp add: entry)
qed

lemma get_main_indices_codes:
  "set (map code (fst (get_main_indices fetch ticker))) \<subseteq> set (map fst MAIN_INDICES)"
proof -
  have same: "map fst yf_mapping = map fst MAIN_INDICES"
    by (simp add: yf_mapping_def MAIN_INDICES_def)
  have "set (map fst (takeWhile (constructed ticker) yf_mapping)) \<subseteq> set (map fst yf_mapping)"
    by (auto dest: set_takeWhileD)
  with map_filter_lookup_codes [of ticker "takeWhile (constructed ticker) yf_mapping"]
  have "set (map code (List.map_filter (lookup ticker)
                         (takeWhile (constructed ticker) yf_mapping)))
               \<subseteq> set (map fst MAIN_INDICES)"
    unfolding same by (rule subset_trans)
  then show ?thesis
    using primary_indices_codes [of fetch]
    by (simp add: get_main_indices_def Let_def get_indices_from_yfinance_each)
qed

lemma untracked_code_choppy:
  "''000001'' \<notin> set (map code (indices overview)) \<Longrightarrow> market_mood overview = Choppy"
proof -
  assume "''000001'' \<notin> set (map code (indices overview))"
  then have "find (\<lambda>idx. code idx = ''000001'') (indices overview) = None"
    by (force simp add: find_None_iff)
  then show ?thesis
    by (simp add: market_mood_def)
qed

text \<open>
  Claim C4. The generator looks the composite index up under the code \<^verbatim>\<open>'000001'\<close>, while
  both sources store it under the tracked code \<^verbatim>\<open>'sh000001'\<close>. A snapshot that holds the
  composite index with a change of +2 percent is therefore classified as choppy, not as a
  strong rally, and so is the snapshot of every run. The thresholds themselves are the
  claim's: an index stored under \<^verbatim>\<open>'000001'\<close> would be classified as a strong rally above 1,
  a mild rally above 0, a mild pullback above -1 and a marked decline otherwise.
\<close>

theorem C4_mood_always_choppy:
  "market_mood ((new_overview today)
                  \<lparr> indices := [\<lparr> code = ''sh000001'', name = ''Shang zheng zhi shu'',
                                  current = Fin 3060, change = Fin 60, change_pct = Fin 2,
                                  open = Fin 3000, high = Fin 3070, low = Fin 2990,
                                  prev_close = Fin 3000, volume = Fin 1, amount = Fin 1,
                                  amplitude = Fin 0 \<rparr>] \<rparr>) = Choppy
   \<and> market_mood (get_market_overview today index_fetch ticker quote_fetch top5 bottom5
                    mb cap) = Choppy
   \<and> market_mood ((new_overview today)
                    \<lparr> indices := [\<lparr> code = ''000001'', name = ''Shang zheng zhi shu'',
                                    current = Fin 3060, change = Fin 60, change_pct = Fin p,
                                    open = Fin 3000, high = Fin 3070, low = Fin 2990,
                                    prev_close = Fin 3000, volume = Fin 1, amount = Fin 1,
                                    amplitude = Fin 0 \<rparr>] \<rparr>)
       = (if 1 < p then StrongRally else if 0 < p then MildRally
          else if - 1 < p then MildPullback else MarkedDecline)"
proof (intro conjI)
  show "market_mood ((new_overview today)
                    \<lparr> indices := [\<lparr> code = ''000001'', name = ''Shang zheng zhi shu'',
                                    current = Fin 3060, change = Fin 60, change_pct = Fin p,
                                    open = Fin 3000, high = Fin 3070, low = Fin 2990,
                                    prev_close = Fin 3000, volume = Fin 1, amount = Fin 1,
                                    amplitude = Fin 0 \<rparr>] \<rparr>)
       = (if 1 < p then StrongRally else if 0 < p then MildRally
          else if - 1 < p then MildPullback else MarkedDecline)"
    by (simp add: market_mood_def fgt_def flt_def)
  show "market_mood ((new_overview today)
                  \<lparr> indices := [\<lparr> code = ''sh000001'', name = ''Shang zheng zhi shu'',
                                  current = Fin 3060, change = Fin 60, change_pct = Fin 2,
                                  open = Fin 3000, high = Fin 3070, low = Fin 2990,
                                  prev_close = Fin 3000, volume = Fin 1, amount = Fin 1,
                                  amplitude = Fin 0 \<rparr>] \<rparr>) = Choppy"
    by (simp add: market_mood_def)
  have "''000001'' \<notin> set (map fst MAIN_INDICES)"
    by (simp add: MAIN_INDICES_def)
  then have "''000001'' \<notin> set (map code (fst (get_main_indices index_fetch ticker)))"
    using get_main_indices_codes [of index_fetch ticker] by blast
  then show "market_mood (get_market_overview today index_fetch ticker quote_fetch top5
                            bottom5 mb cap) = Choppy"
    by (intro untracked_code_choppy) (simp add: run_indices)
qed

subsection \<open>The empty snapshot\<close>

lemma risk_section_no_marker: "\<not> sublist no_data_marker template_risk_section"
  by code_simp

lemma no_data_has_marker:
  "sublist no_data_marker
     (''### si, niu shi tao ding zhi biao'' @ nl @ bull_top_no_data @ nl @ nl)"
  by code_simp

lemma index_heading_no_digit:
  "filter is_digit (''### er, zhu yao zhi shu'' @ nl @ [] @ nl @ nl) = []"
  by code_simp

text \<open>
  Claim C5, as the program has it. For a snapshot with an empty index list the index
  section of the fallback report contains no digit, hence no index level. The
  risk-disclosure section is a fixed disclaimer and carries no no-data marker. The marker
  the report does print is the one of the leverage section, present whenever the stored
  ratio is not positive. Breadth counts, turnover and north-bound flow that are zero are
  printed as the numbers \<^verbatim>\<open>0\<close>, \<^verbatim>\<open>0\<close> and \<^verbatim>\<open>+0.00\<close>.
\<close>

theorem C5_empty_snapshot:
  "indices overview = [] \<Longrightarrow>
   generate_template_review overview clock =
     template_title overview @ template_summary_section overview
     @ template_index_section overview @ template_breadth_section overview
     @ template_leverage_section overview @ template_sector_section overview
     @ template_risk_section @ template_footer clock
   \<and> filter is_digit (template_index_section overview) = []
   \<and> \<not> sublist no_data_marker template_risk_section
   \<and> (if fle (margin_ratio overview) (Fin 0)
       then sublist no_data_marker (template_leverage_section overview)
       else template_leverage_section overview =
              ''### si, niu shi tao ding zhi biao'' @ nl
              @ join nl ([''| zhi biao | shu zhi |'', ''|------|------|'']
                         @ bull_top_rows overview
                         @ [[], fst (bull_top_banner overview), [],
                            ''> [light bulb] '' @ snd (bull_top_banner overview)])
              @ nl @ nl)
   \<and> (up_count overview = 0 \<and> down_count overview = 0 \<and> limit_up_count overview = 0
        \<and> limit_down_count overview = 0 \<and> total_amount overview = Fin 0
        \<and> north_flow overview = Fin 0 \<longrightarrow>
      template_breadth_section overview =
        ''### san, zhang die tong ji'' @ nl
        @ ''| zhi biao | shu zhi |'' @ nl
        @ ''|------|------|'' @ nl
        @ ''| shang zhang jia shu | 0 |'' @ nl
        @ ''| xia die jia shu | 0 |'' @ nl
        @ ''| zhang ting | 0 |'' @ nl
        @ ''| die ting | 0 |'' @ nl
        @ ''| liang shi cheng jiao e | 0yi |'' @ nl
        @ ''| bei xiang zi jin | +0.00yi |'' @ nl @ nl)"
proof (intro conjI)
  assume empty: "indices overview = []"
  show "generate_template_review overview clock =
     template_title overview @ template_summary_section overview
     @ template_index_section overview @ template_breadth_section overview
     @ template_leverage_section overview @ template_sector_section overview
     @ template_risk_section @ template_footer clock"
    by (simp add: generate_template_review_def)
  have "template_index_section overview = ''### er, zhu yao zhi shu'' @ nl @ [] @ nl @ nl"
    using empty by (simp add: template_index_section_def template_indices_text_def)
  then show "filter is_digit (template_index_section overview) = []"
    by (simp only: index_heading_no_digit)
  show "\<not> sublist no_data_marker template_risk_section"
    by (rule risk_section_no_marker)
  show "if fle (margin_ratio overview) (Fin 0)
       then sublist no_data_marker (template_leverage_section overview)
       else template_leverage_section overview =
              ''### si, niu shi tao ding zhi biao'' @ nl
              @ join nl ([''| zhi biao | shu zhi |'', ''|------|------|'']
                         @ bull_top_rows overview
                         @ [[], fst (bull_top_banner overview), [],
                            ''> [light bulb] '' @ snd (bull_top_banner overview)])
              @ nl @ nl"
    using no_data_has_marker
    by (simp add: template_leverage_section_def format_bull_top_indicator_def)
  show "up_count overview = 0 \<and> down_count overview = 0 \<and> limit_up_count overview = 0
        \<and> limit_down_count overview = 0 \<and> total_amount overview = Fin 0
        \<and> north_flow overview = Fin 0 \<longrightarrow>
      template_breadth_section overview =
        ''### san, zhang die tong ji'' @ nl
        @ ''| zhi biao | shu zhi |'' @ nl
        @ ''|------|------|'' @ nl
        @ ''| shang zhang jia shu | 0 |'' @ nl
        @ ''| xia die jia shu | 0 |'' @ nl
        @ ''| zhang ting | 0 |'' @ nl
        @ ''| die ting | 0 |'' @ nl
        @ ''| liang shi cheng jiao e | 0yi |'' @ nl
        @ ''| bei xiang zi jin | +0.00yi |'' @ nl @ nl"
    by (simp add: template_breadth_section_def template_north_row_def show_int_zero
          fmt_0f_zero fmt_plus_2f_zero)
qed

theorem C5_empty_snapshot_witness:
  "indices (new_overview ''2024-01-02'') = []
   \<and> filter is_digit (template_index_section (new_overview ''2024-01-02'')) = []
   \<and> sublist no_data_marker (template_leverage_section (new_overview ''2024-01-02''))
   \<and> sublist ''| shang zhang jia shu | 0 |''
        (template_breadth_section (new_overview ''2024-01-02''))"
proof -
  let ?ov = "new_overview ''2024-01-02''"
  have empty: "indices ?ov = []"
    by (simp add: new_overview_def)
  have ratio: "fle (margin_ratio ?ov) (Fin 0)"
    by code_simp
  have zero: "up_count ?ov = 0 \<and> down_count ?ov = 0 \<and> limit_up_count ?ov = 0
          \<and> limit_down_count ?ov = 0 \<and> total_amount ?ov = Fin 0 \<and> north_flow ?ov = Fin 0"
    by (simp add: new_overview_def)
  note parts = C5_empty_snapshot [OF empty, of "''15:30''"]
  have digits: "filter is_digit (template_index_section ?ov) = []"
    using parts by blast
  have marker: "sublist no_data_marker (template_leverage_section ?ov)"
    using parts ratio by (simp only: if_True)
  have breadth: "template_breadth_section ?ov =
              ''### san, zhang die tong ji'' @ nl
              @ ''| zhi biao | shu zhi |'' @ nl
              @ ''|------|------|'' @ nl
              @ ''| shang zhang jia shu | 0 |'' @ nl
              @ ''| xia die jia shu | 0 |'' @ nl
              @ ''| zhang ting | 0 |'' @ nl
              @ ''| die ting | 0 |'' @ nl
              @ ''| liang shi cheng jiao e | 0yi |'' @ nl
              @ ''| bei xiang zi jin | +0.00yi |'' @ nl @ nl"
    using parts zero by blast
  have "sublist ''| shang zhang jia shu | 0 |''
              (''### san, zhang die tong ji'' @ nl
              @ ''| zhi biao | shu zhi |'' @ nl
              @ ''|------|------|'' @ nl
              @ ''| shang zhang jia shu | 0 |'' @ nl
              @ ''| xia die jia shu | 0 |'' @ nl
              @ ''| zhang ting | 0 |'' @ nl
              @ ''| die ting | 0 |'' @ nl
              @ ''| liang shi cheng jiao e | 0yi |'' @ nl
              @ ''| bei xiang zi jin | +0.00yi |'' @ nl @ nl)"
    by code_simp
  then have row: "sublist ''| shang zhang jia shu | 0 |'' (template_breadth_section ?ov)"
    by (simp only: breadth)
  show ?thesis
    by (intro conjI empty digits marker row)
qed

text \<open>
  On the fresh snapshot of a day neither the index section nor the risk-disclosure section
  of the fallback report contains the no-data marker.
\<close>

theorem C5_no_marker_counterexample:
  "\<not> sublist no_data_marker (template_index_section (new_overview ''2024-01-02''))
   \<and> \<not> sublist no_data_marker template_risk_section
   \<and> generate_template_review (new_overview ''2024-01-02'') ''15:30'' =
       template_title (new_overview ''2024-01-02'')
       @ template_summary_section (new_overview ''2024-01-02'')
       @ template_index_section (new_overview ''2024-01-02'')
       @ template_breadth_section (new_overview ''2024-01-02'')
       @ template_leverage_section (new_overview ''2024-01-02'')
       @ template_sector_section (new_overview ''2024-01-02'')
       @ template_risk_section @ template_footer ''15:30''"
  by code_simp

subsection \<open>The north-bound flow\<close>

text \<open>
  Claim C7, as the program has it. No stage of a run assigns the north-bound-flow field, so
  it is zero in every snapshot a run produces. Both the prompt and the fallback report print
  the field as a signed number with two decimals, which for zero is \<^verbatim>\<open>+0.00\<close>; neither
  replaces it by a no-data marker.
\<close>

theorem C7_north_flow_printed:
  "north_flow (get_market_overview today index_fetch ticker quote_fetch top5 bottom5 mb cap)
     = Fin 0
   \<and> template_north_row overview =
       ''| bei xiang zi jin | '' @ fmt_plus_2f (north_flow overview) @ ''yi |''
   \<and> prompt_north_line overview =
       ''- bei xiang zi jin: '' @ fmt_plus_2f (north_flow overview) @ '' yi yuan''
   \<and> fmt_plus_2f (Fin 0) = ''+0.00''
   \<and> sublist (template_north_row overview) (generate_template_review overview clock)
   \<and> sublist (prompt_north_line overview) (build_review_prompt overview news)"
proof (intro conjI)
  show "north_flow (get_market_overview today index_fetch ticker quote_fetch top5 bottom5 mb cap)
     = Fin 0"
    by (rule run_north_flow)
  show "template_north_row overview =
       ''| bei xiang zi jin | '' @ fmt_plus_2f (north_flow overview) @ ''yi |''"
    by (simp add: template_north_row_def)
  show "prompt_north_line overview =
       ''- bei xiang zi jin: '' @ fmt_plus_2f (north_flow overview) @ '' yi yuan''"
    by (simp add: prompt_north_line_def)
  show "fmt_plus_2f (Fin 0) = ''+0.00''"
    by (rule fmt_plus_2f_zero)
  have "\<exists>before after. generate_template_review overview clock
          = before @ template_north_row overview @ after"
    unfolding generate_template_review_def template_breadth_section_def
    by (metis append.assoc)
  then show "sublist (template_north_row overview) (generate_template_review overview clock)"
    by (simp add: sublist_def)
  have "\<exists>before after. build_review_prompt overview news
          = before @ prompt_north_line overview @ after"
    unfolding build_review_prompt_def prompt_breadth_section_def
    by (metis append.assoc)
  then show "sublist (prompt_north_line overview) (build_review_prompt overview news)"
    by (simp add: sublist_def)
qed

text \<open>
  On the snapshot a run produces when every source is unavailable, the fresh overview of the
  day, the north-bound-flow line of both reports shows the figure \<^verbatim>\<open>+0.00\<close> and no no-data
  marker.
\<close>

theorem C7_zero_flow_counterexample:
  "template_north_row (new_overview ''2024-01-02'') = ''| bei xiang zi jin | +0.00yi |''
   \<and> prompt_north_line (new_overview ''2024-01-02'') = ''- bei xiang zi jin: +0.00 yi yuan''
   \<and> \<not> sublist no_data_marker (template_north_row (new_overview ''2024-01-02''))
   \<and> \<not> sublist no_data_marker (prompt_north_line (new_overview ''2024-01-02''))"
  by code_simp

subsection \<open>The index lines\<close>

lemma foldl_append_concat:
  "foldl (\<lambda>text x. text @ f x) a xs = a @ concat (map f xs)"
  by (induction xs arbitrary: a) simp_all

lemma take_four:
  "4 < length xs \<Longrightarrow> take 4 xs = [xs ! 0, xs ! 1, xs ! 2, xs ! 3]"
proof -
  assume len: "4 < length xs"
  have "take 4 xs = take (Suc (Suc (Suc (Suc 0)))) xs"
    by (simp add: numeral_eq_Suc)
  also have "\<dots> = [xs ! 0, xs ! 1, xs ! 2, xs ! 3]"
  proof -
    have "0 < length xs" "Suc 0 < length xs" "Suc (Suc 0) < length xs"
      "Suc (Suc (Suc 0)) < length xs"
      using len by auto
    then show ?thesis
      by (simp add: take_Suc_conv_app_nth numeral_eq_Suc)
  qed
  finally show ?thesis .
qed

text \<open>
  Claim C10. For a snapshot with more than four indices the index section of the fallback
  report is its heading followed by the lines of the first four indices, in snapshot order,
  and nothing else: it is the same for every snapshot with the same first four indices. The
  index section of the prompt is its heading followed by the lines of all indices. Each
  section stands in its report between the section before it and the section after it.
\<close>

theorem C10_first_four:
  "4 < length (indices overview) \<Longrightarrow>
   template_indices_text overview =
     template_index_line (indices overview ! 0) @ template_index_line (indices overview ! 1)
     @ template_index_line (indices overview ! 2) @ template_index_line (indices overview ! 3)
   \<and> prompt_indices_text overview = concat (map prompt_index_line (indices overview))
   \<and> sublist (template_indices_text overview) (generate_template_review overview clock)
   \<and> sublist (prompt_indices_text overview) (build_review_prompt overview news)
   \<and> template_index_section overview =
       ''### er, zhu yao zhi shu'' @ nl
       @ template_index_line (indices overview ! 0) @ template_index_line (indices overview ! 1)
       @ template_index_line (indices overview ! 2) @ template_index_line (indices overview ! 3)
       @ nl @ nl
   \<and> (\<forall>other. take 4 (indices other) = take 4 (indices overview) \<longrightarrow>
        template_index_section other = template_index_section overview)
   \<and> generate_template_review overview clock =
       template_title overview @ template_summary_section overview
       @ template_index_section overview
       @ template_breadth_section overview @ template_leverage_section overview
       @ template_sector_section overview @ template_risk_section @ template_footer clock
   \<and> prompt_index_section overview =
       ''## zhu yao zhi shu'' @ nl
       @ concat (map prompt_index_line (indices overview)) @ nl @ nl
   \<and> build_review_prompt overview news =
       prompt_preamble @ prompt_date_section overview
       @ prompt_index_section overview
       @ prompt_breadth_section overview @ prompt_leverage_section overview
       @ prompt_sector_section overview @ prompt_news_section news
       @ prompt_guard overview @ prompt_outline overview"
proof -
  assume len: "4 < length (indices overview)"
  have four: "template_indices_text overview =
     template_index_line (indices overview ! 0) @ template_index_line (indices overview ! 1)
     @ template_index_line (indices overview ! 2) @ template_index_line (indices overview ! 3)"
    by (simp add: template_indices_text_def foldl_append_concat take_four [OF len])
  have every: "prompt_indices_text overview = concat (map prompt_index_line (indices overview))"
    by (simp add: prompt_indices_text_def foldl_append_concat)
  have "generate_template_review overview clock =
          (template_title overview @ template_summary_section overview
             @ ''### er, zhu yao zhi shu'' @ nl)
          @ template_indices_text overview
          @ (nl @ nl @ template_breadth_section overview @ template_leverage_section overview
             @ template_sector_section overview @ template_risk_section
             @ template_footer clock)"
    by (simp add: generate_template_review_def template_index_section_def)
  then have in_report: "sublist (template_indices_text overview)
                          (generate_template_review overview clock)"
    by (metis sublist_appendI)
  have "indices overview \<noteq> []"
    using len by auto
  then obtain idx rest where "indices overview = idx # rest"
    by (cases "indices overview") auto
  then have some: "prompt_indices_text overview \<noteq> []"
    by (simp add: prompt_indices_text_def foldl_append_concat prompt_index_line_def)
  then have "build_review_prompt overview news =
          (prompt_preamble @ prompt_date_section overview @ ''## zhu yao zhi shu'' @ nl)
          @ prompt_indices_text overview
          @ (nl @ nl @ prompt_breadth_section overview @ prompt_leverage_section overview
             @ prompt_sector_section overview @ prompt_news_section news
             @ prompt_guard overview @ prompt_outline overview)"
    by (simp add: build_review_prompt_def prompt_index_section_def)
  then have in_prompt: "sublist (prompt_indices_text overview)
                          (build_review_prompt overview news)"
    by (metis sublist_appendI)
  have section4: "template_index_section overview =
       ''### er, zhu yao zhi shu'' @ nl
       @ template_index_line (indices overview ! 0) @ template_index_line (indices overview ! 1)
       @ template_index_line (indices overview ! 2) @ template_index_line (indices overview ! 3)
       @ nl @ nl"
    by (simp add: template_index_section_def four)
  have same: "\<forall>other. take 4 (indices other) = take 4 (indices overview) \<longrightarrow>
        template_index_section other = template_index_section overview"
    by (simp add: template_index_section_def template_indices_text_def)
  have report: "generate_template_review overview clock =
       template_title overview @ template_summary_section overview
       @ template_index_section overview
       @ template_breadth_section overview @ template_leverage_section overview
       @ template_sector_section overview @ template_risk_section @ template_footer clock"
    by (simp add: generate_template_review_def)
  have section_all: "prompt_index_section overview =
       ''## zhu yao zhi shu'' @ nl
       @ concat (map prompt_index_line (indices overview)) @ nl @ nl"
    using some by (simp add: prompt_index_section_def every)
  have prompt: "build_review_prompt overview news =
       prompt_preamble @ prompt_date_section overview
       @ prompt_index_section overview
       @ prompt_breadth_section overview @ prompt_leverage_section overview
       @ prompt_sector_section overview @ prompt_news_section news
       @ prompt_guard overview @ prompt_outline overview"
    by (simp add: build_review_prompt_def)
  show ?thesis
    by (intro conjI four every in_report in_prompt section4 same report section_all prompt)
qed

text \<open>
  A snapshot with five indices: the fallback report's index section shows the first four,
  as it does for the snapshot that holds only those four, and the prompt's shows all five.
\<close>

theorem C10_first_four_witness:
  "(let idx = (\<lambda>c nm pct. \<lparr> code = c, name = nm, current = Fin 3000, change = Fin 0,
                             change_pct = pct, open = Fin 0, high = Fin 0, low = Fin 0,
                             prev_close = Fin 0, volume = Fin 0, amount = Fin 0,
                             amplitude = Fin 0 \<rparr>);
        first = [idx ''sh000001'' ''A'' (Fin 1), idx ''sz399001'' ''B'' (Fin (- 1)),
                 idx ''sz399006'' ''C'' (Fin 0), idx ''sh000688'' ''D'' (Fin 2)];
        overview = (new_overview ''2024-01-02'')
                     \<lparr> indices := first @ [idx ''sh000016'' ''E'' (Fin 3)] \<rparr>;
        other = (new_overview ''2024-01-02'') \<lparr> indices := first \<rparr>
    in 4 < length (indices overview)
       \<and> template_indices_text overview =
           ''- **A**: 3000.00 ([up]1.00%)'' @ nl @ ''- **B**: 3000.00 ([down]1.00%)'' @ nl
           @ ''- **C**: 3000.00 (-0.00%)'' @ nl @ ''- **D**: 3000.00 ([up]2.00%)'' @ nl
       \<and> template_index_section overview =
           ''### er, zhu yao zhi shu'' @ nl
           @ ''- **A**: 3000.00 ([up]1.00%)'' @ nl @ ''- **B**: 3000.00 ([down]1.00%)'' @ nl
           @ ''- **C**: 3000.00 (-0.00%)'' @ nl @ ''- **D**: 3000.00 ([up]2.00%)'' @ nl
           @ nl @ nl
       \<and> take 4 (indices other) = take 4 (indices overview)
       \<and> template_index_section other = template_index_section overview
       \<and> prompt_indices_text overview =
           ''- A: 3000.00 ([up]1.00%)'' @ nl @ ''- B: 3000.00 ([down]1.00%)'' @ nl
           @ ''- C: 3000.00 (-0.00%)'' @ nl @ ''- D: 3000.00 ([up]2.00%)'' @ nl
           @ ''- E: 3000.00 ([up]3.00%)'' @ nl)"
proof -
  let ?idx = "\<lambda>c nm pct. \<lparr> code = c, name = nm, current = Fin 3000, change = Fin 0,
                             change_pct = pct, open = Fin 0, high = Fin 0, low = Fin 0,
                             prev_close = Fin 0, volume = Fin 0, amount = Fin 0,
                             amplitude = Fin 0 \<rparr>"
  let ?first = "[?idx ''sh000001'' ''A'' (Fin 1), ?idx ''sz399001'' ''B'' (Fin (- 1)),
                 ?idx ''sz399006'' ''C'' (Fin 0), ?idx ''sh000688'' ''D'' (Fin 2)]"
  let ?ov = "(new_overview ''2024-01-02'')
                     \<lparr> indices := ?first @ [?idx ''sh000016'' ''E'' (Fin 3)] \<rparr>"
  let ?other = "(new_overview ''2024-01-02'') \<lparr> indices := ?first \<rparr>"
  have len: "4 < length (indices ?ov)"
    by simp
  note first_four = C10_first_four [OF len, of "''15:30''" "[]"]
  have t: "template_indices_text ?ov =
     template_index_line (indices ?ov ! 0) @ template_index_line (indices ?ov ! 1)
     @ template_index_line (indices ?ov ! 2) @ template_index_line (indices ?ov ! 3)"
    using first_four by (rule conjunct1)
  have p: "prompt_indices_text ?ov = concat (map prompt_index_line (indices ?ov))"
    using first_four by (rule conjunct1 [OF conjunct2])
  have sec: "template_index_section ?ov =
       ''### er, zhu yao zhi shu'' @ nl
       @ template_index_line (indices ?ov ! 0) @ template_index_line (indices ?ov ! 1)
       @ template_index_line (indices ?ov ! 2) @ template_index_line (indices ?ov ! 3)
       @ nl @ nl"
    using first_four by blast
  have indep: "\<forall>other. take 4 (indices other) = take 4 (indices ?ov) \<longrightarrow>
        template_index_section other = template_index_section ?ov"
    using first_four by blast
  have same4: "take 4 (indices ?other) = take 4 (indices ?ov)"
    by simp
  with indep have other: "template_index_section ?other = template_index_section ?ov"
    by blast
  have te: "template_index_line (indices ?ov ! 0) @ template_index_line (indices ?ov ! 1)
     @ template_index_line (indices ?ov ! 2) @ template_index_line (indices ?ov ! 3) =
           ''- **A**: 3000.00 ([up]1.00%)'' @ nl @ ''- **B**: 3000.00 ([down]1.00%)'' @ nl
           @ ''- **C**: 3000.00 (-0.00%)'' @ nl @ ''- **D**: 3000.00 ([up]2.00%)'' @ nl"
    by code_simp
  have se: "''### er, zhu yao zhi shu'' @ nl
       @ template_index_line (indices ?ov ! 0) @ template_index_line (indices ?ov ! 1)
       @ template_index_line (indices ?ov ! 2) @ template_index_line (indices ?ov ! 3)
       @ nl @ nl =
           ''### er, zhu yao zhi shu'' @ nl
           @ ''- **A**: 3000.00 ([up]1.00%)'' @ nl @ ''- **B**: 3000.00 ([down]1.00%)'' @ nl
           @ ''- **C**: 3000.00 (-0.00%)'' @ nl @ ''- **D**: 3000.00 ([up]2.00%)'' @ nl
           @ nl @ nl"
    by code_simp
  have pe: "concat (map prompt_index_line (indices ?ov)) =
           ''- A: 3000.00 ([up]1.00%)'' @ nl @ ''- B: 3000.00 ([down]1.00%)'' @ nl
           @ ''- C: 3000.00 (-0.00%)'' @ nl @ ''- D: 3000.00 ([up]2.00%)'' @ nl
           @ ''- E: 3000.00 ([up]3.00%)'' @ nl"
    by code_simp
  show ?thesis
    unfolding Let_def
    using len t [unfolded te] sec [unfolded se] same4 other p [unfolded pe]
    by (intro conjI)
qed

end
